theory Spec2Isabelle
  imports Main
begin

section \<open>CyberX: the five-stage pipeline and its degradation model\<close>

text \<open>
  A shallow embedding of \<^verbatim>\<open>CyberX.py\<close>. The third-party services the program calls
  (page fetching and HTML parsing, the generative model, the sentence embedder, the vector
  store, \<^verbatim>\<open>json.loads\<close>/\<^verbatim>\<open>json.dumps\<close>, standard input and the file system) are
  fields of an environment record; a call that raises returns \<open>Inl\<close> of the exception.
  Strings are sequences of Unicode code points.
  Every exception a service raises is taken to derive from \<^verbatim>\<open>Exception\<close>, which is what
  the handlers of the program catch. A service is a function of its arguments. Of the lines
  the program prints, those of the session, of the retriever and of \<^verbatim>\<open>save_run_json\<close>
  are modelled; each phase
  returns its section of the run log, which the driver stores.
\<close>

subsection \<open>Python strings\<close>

text \<open>
  A Python string is a sequence of Unicode code points; \<open>str\<close> gives the string of an ASCII
  literal. \<^verbatim>\<open>len\<close> is \<open>length\<close> and a slice \<^verbatim>\<open>s[:n]\<close> is \<open>take n s\<close>.
\<close>

type_synonym ustring = "nat list"

definition str :: "string \<Rightarrow> ustring" where
  "str s = map of_char s"

text \<open>
  What the interpreter takes from the Unicode character database, for strings and code
  points outside ASCII: \<^verbatim>\<open>str.lower\<close> of a string that has such a code point (the
  mapping is not one of single characters: it may lengthen the string and depends on the
  position of a capital sigma), and the value of a decimal digit (category Nd).
\<close>

record unicode_db =
  unicode_lower :: "ustring \<Rightarrow> ustring"
  unicode_decimal :: "nat \<Rightarrow> nat option"

definition lower_char :: "nat \<Rightarrow> nat" where
  "lower_char c = (if 65 \<le> c \<and> c \<le> 90 then c + 32 else c)"

definition lower :: "unicode_db \<Rightarrow> ustring \<Rightarrow> ustring" where
  "lower db s = (if list_all (\<lambda>c. c < 128) s then map lower_char s else unicode_lower db s)"

text \<open>
  The white space \<^verbatim>\<open>str.strip\<close> removes: U+0009 to U+000D, U+001C to U+0020, U+0085,
  U+00A0, U+1680, U+2000 to U+200A, U+2028, U+2029, U+202F, U+205F and U+3000.
\<close>

definition is_space :: "nat \<Rightarrow> bool" where
  "is_space c =
     ((9 \<le> c \<and> c \<le> 13) \<or> (28 \<le> c \<and> c \<le> 32) \<or> c = 133 \<or> c = 160 \<or> c = 5760
      \<or> (8192 \<le> c \<and> c \<le> 8202) \<or> c = 8232 \<or> c = 8233 \<or> c = 8239 \<or> c = 8287
      \<or> c = 12288)"

definition lstrip :: "ustring \<Rightarrow> ustring" where
  "lstrip s = dropWhile is_space s"

definition rstrip :: "ustring \<Rightarrow> ustring" where
  "rstrip s = rev (dropWhile is_space (rev s))"

definition strip :: "ustring \<Rightarrow> ustring" where
  "strip s = rstrip (lstrip s)"

fun join :: "ustring \<Rightarrow> ustring list \<Rightarrow> ustring" where
  "join sep [] = []"
| "join sep [x] = x"
| "join sep (x # y # ys) = x @ sep @ join sep (y # ys)"

subsection \<open>Exceptions and JSON values\<close>

text \<open>An exception is represented by its message, \<^verbatim>\<open>str(e)\<close>.\<close>

datatype py_error = PyException ustring

fun str_of_error :: "py_error \<Rightarrow> ustring" where
  "str_of_error (PyException msg) = msg"

text \<open>A JSON value as \<^verbatim>\<open>json.loads\<close> returns it; a number is kept as its literal text.\<close>

datatype json =
    JNull
  | JBool bool
  | JNum ustring
  | JStr ustring
  | JList "json list"
  | JObj "(ustring \<times> json) list"

subsection \<open>Configuration constants\<close>

definition ARTICLE_URLS :: "ustring list" where
  \<open>ARTICLE_URLS = [
    (str ''https://thehackernews.com/2025/12/chinese-hackers-have-started-exploiting.html''),
    (str ''https://thehackernews.com/2025/12/react2shell-exploitation-escalates-into.html''),
    (str ''https://thehackernews.com/2025/12/warning-winrar-vulnerability-cve-2025.html''),
    (str ''https://thehackernews.com/2025/12/threatsday-bulletin-spyware-alerts.html''),
    (str ''https://thehackernews.com/2025/12/chrome-targeted-by-active-in-wild.html''),
    (str ''https://thehackernews.com/2025/12/unpatched-gogs-zero-day-exploited.html''),
    (str ''https://thehackernews.com/2025/12/storm-0249-escalates-ransomware-attacks.html''),
    (str ''https://thehackernews.com/2025/12/nanoremote-malware-uses-google-drive.html''),
    (str ''https://thehackernews.com/2025/11/apt24-deploys-badaudio-in-years-long.html''),
    (str ''https://thehackernews.com/2025/08/charon-ransomware-hits-middle-east.html''),
    (str ''https://thehackernews.com/2025/12/5-threats-that-reshaped-web-security.html''),
    (str ''https://thehackernews.com/2025/12/microsoft-issues-security-fixes-for-56.html''),
    (str ''https://thehackernews.com/2025/12/critical-xxe-bug-cve-2025-66516-cvss.html''),
    (str ''https://thehackernews.com/2025/11/fortinet-warns-of-new-fortiweb-cve-2025.html''),
    (str ''https://thehackernews.com/2025/12/new-advanced-phishing-kits-use-ai-and.html'')]\<close>

definition MOCK_THREAT_INTEL_LIST :: "json list" where
  \<open>MOCK_THREAT_INTEL_LIST = [
    JObj [((str ''actor''), JStr (str ''Earth Lamia'')), ((str ''aliases''), JList [JStr (str ''China-nexus'')]), ((str ''ttps''), JList [JStr (str ''RCE Exploitation'')]), ((str ''targets''), JList [JStr (str ''Global Servers'')]), ((str ''iocs''), JList []), ((str ''timeline''), JStr (str ''Dec 2025''))],
    JObj [((str ''actor''), JStr (str ''Jackpot Panda'')), ((str ''aliases''), JList [JStr (str ''China-nexus'')]), ((str ''ttps''), JList [JStr (str ''Crypto Mining'')]), ((str ''targets''), JList [JStr (str ''Web Infrastructure'')]), ((str ''iocs''), JList []), ((str ''timeline''), JStr (str ''Dec 2025''))],
    JObj [((str ''actor''), JStr (str ''STAC6565'')), ((str ''aliases''), JList [JStr (str ''Gold Blade'')]), ((str ''ttps''), JList [JStr (str ''Ransomware Deployment'')]), ((str ''targets''), JList [JStr (str ''Canada'')]), ((str ''iocs''), JList []), ((str ''timeline''), JStr (str ''Dec 2025''))],
    JObj [((str ''actor''), JStr (str ''VolkLocker'')), ((str ''aliases''), JList []), ((str ''ttps''), JList [JStr (str ''Ransomware'')]), ((str ''targets''), JList [JStr (str ''Windows/Linux'')]), ((str ''iocs''), JList []), ((str ''timeline''), JStr (str ''Dec 2025''))],
    JObj [((str ''actor''), JStr (str ''PassiveNeuron'')), ((str ''aliases''), JList [JStr (str ''APT'')]), ((str ''ttps''), JList [JStr (str ''Espionage, Neursite'')]), ((str ''targets''), JList [JStr (str ''Global'')]), ((str ''iocs''), JList []), ((str ''timeline''), JStr (str ''Oct 2025''))],
    JObj [((str ''actor''), JStr (str ''APT31'')), ((str ''aliases''), JList [JStr (str ''Judgement Panda'')]), ((str ''ttps''), JList [JStr (str ''CloudyLoader'')]), ((str ''targets''), JList [JStr (str ''Russian IT'')]), ((str ''iocs''), JList []), ((str ''timeline''), JStr (str ''Nov 2025''))],
    JObj [((str ''actor''), JStr (str ''Storm-0249'')), ((str ''aliases''), JList []), ((str ''ttps''), JList [JStr (str ''ClickFix, Ransomware'')]), ((str ''targets''), JList [JStr (str ''Multiple Sectors'')]), ((str ''iocs''), JList []), ((str ''timeline''), JStr (str ''Dec 2025''))],
    JObj [((str ''actor''), JStr (str ''SideWinder'')), ((str ''aliases''), JList [JStr (str ''APT-C-17'')]), ((str ''ttps''), JList [JStr (str ''Phishing'')]), ((str ''targets''), JList [JStr (str ''Maritime, Nuclear'')]), ((str ''iocs''), JList []), ((str ''timeline''), JStr (str ''Mar 2025''))],
    JObj [((str ''actor''), JStr (str ''Blind Eagle'')), ((str ''aliases''), JList [JStr (str ''APT-C-36'')]), ((str ''ttps''), JList [JStr (str ''RATs, Phishing'')]), ((str ''targets''), JList [JStr (str ''Colombia'')]), ((str ''iocs''), JList []), ((str ''timeline''), JStr (str ''Aug 2025''))],
    JObj [((str ''actor''), JStr (str ''Charon'')), ((str ''aliases''), JList []), ((str ''ttps''), JList [JStr (str ''Ransomware'')]), ((str ''targets''), JList [JStr (str ''Middle East'')]), ((str ''iocs''), JList []), ((str ''timeline''), JStr (str ''Aug 2025''))],
    JObj [((str ''actor''), JStr (str ''Storm-2603'')), ((str ''aliases''), JList []), ((str ''ttps''), JList [JStr (str ''LockBit Ransomware'')]), ((str ''targets''), JList [JStr (str ''Multiple'')]), ((str ''iocs''), JList []), ((str ''timeline''), JStr (str ''Oct 2025''))],
    JObj [((str ''actor''), JStr (str ''GrayBravo'')), ((str ''aliases''), JList [JStr (str ''TAG-150'')]), ((str ''ttps''), JList [JStr (str ''CastleLoader'')]), ((str ''targets''), JList [JStr (str ''Multiple Sectors'')]), ((str ''iocs''), JList []), ((str ''timeline''), JStr (str ''Dec 2025''))],
    JObj [((str ''actor''), JStr (str ''Warp Panda'')), ((str ''aliases''), JList [JStr (str ''BRICKSTORM'')]), ((str ''ttps''), JList [JStr (str ''Backdoor'')]), ((str ''targets''), JList [JStr (str ''Government'')]), ((str ''iocs''), JList []), ((str ''timeline''), JStr (str ''Dec 2025''))],
    JObj [((str ''actor''), JStr (str ''APT41'')), ((str ''aliases''), JList [JStr (str ''Brass Typhoon'')]), ((str ''ttps''), JList [JStr (str ''Phishing'')]), ((str ''targets''), JList [JStr (str ''US Officials'')]), ((str ''iocs''), JList []), ((str ''timeline''), JStr (str ''2025''))],
    JObj [((str ''actor''), JStr (str ''Aquatic Panda'')), ((str ''aliases''), JList []), ((str ''ttps''), JList [JStr (str ''Espionage'')]), ((str ''targets''), JList [JStr (str ''Global'')]), ((str ''iocs''), JList []), ((str ''timeline''), JStr (str ''2025''))]]\<close>

definition PREDEFINED_QUESTIONS :: "(ustring \<times> ustring) list" where
  \<open>PREDEFINED_QUESTIONS = [
    ((str ''which threat actors are china-nexus?''),
     (str ''Numerous threat actors are linked to China, generally categorized as China-nexus due to their alignment with the strategic intelligence-gathering interests of the People's Republic of China (PRC). In 2025, China-nexus actors include Earth Lamia, Jackpot Panda, APT31, APT41, Warp Panda, and others using advanced exploitation.'')),
    ((str ''what are the most active ransomware groups in 2025?''),
     (str ''Active ransomware in 2025: STAC6565 (QWCrypt), VolkLocker, Charon, Storm-0249, LockBit variants.'')),
    ((str ''recent activities of medusa?''),
     (str ''Medusa refers to two prominent entities: a highly active ransomware group and a major submarine cable project. The Medusa ransomware (operated by affiliates like Spearwing) has seen a surge in activity in 2025, targeting critical sectors with double extortion, while the Medusa Submarine Cable System is actively laying new digital infrastructure in the Mediterranean during late 2025.'')),
    ((str ''recent activities of apt31?''),
     (str ''APT31, a China-linked cyber espionage group, has recently been active in campaigns targeting the Russian IT sector and the Czech Ministry of Foreign Affairs, utilizing a diverse and evolving set of tools to maintain stealth and persistence. APT31 launched stealthy attacks on Russian IT firms in Nov 2025 using CloudyLoader.''))]\<close>

definition EXTRACTION_PROMPT :: ustring where
  \<open>EXTRACTION_PROMPT = (str ''\<newline>You are a cybersecurity threat intelligence analyst.\<newline>\<newline>Extract structured data from the report:\<newline>- actor (main threat actor name)\<newline>- aliases (list)\<newline>- ttps (list of tactics/techniques)\<newline>- targets (list of industries/countries/sectors)\<newline>- iocs (list)\<newline>- timeline\<newline>\<newline>Return ONLY valid JSON object. Use empty lists if nothing found.\<newline>\<newline>REPORT:\<newline>'')\<close>


subsection \<open>Data model\<close>

text \<open>
  What the program reads of a fetched page, after \<^verbatim>\<open>raise_for_status\<close> and parsing:
  the stripped text of the first \<^verbatim>\<open>h1\<close> element, of the \<^verbatim>\<open>title\<close> element
  (each absent when the page has none) and of every \<^verbatim>\<open>p\<close> element.
\<close>

record page =
  pg_h1 :: "ustring option"
  pg_title :: "ustring option"
  pg_paragraphs :: "ustring list"

record raw_report =
  rr_url :: ustring
  rr_title :: ustring
  rr_content :: ustring

record report =
  rp_url :: ustring
  rp_title :: ustring
  rp_content_preview :: ustring

record phase1_data =
  p1_description :: ustring
  collection_method :: ustring
  collected_count :: nat
  reports :: "report list"
  failed_urls :: "(ustring \<times> ustring) list"
  p1_error :: "ustring option"

record document =
  doc_title :: ustring
  doc_source :: ustring
  threat_intelligence :: json

record phase2_data =
  p2_description :: ustring
  used_llm :: bool
  used_mock :: bool
  document_count :: nat
  p2_documents :: "document list"
  p2_error :: "ustring option"

record kb_entry =
  ke_index :: nat
  ke_actor :: json
  ke_title :: ustring
  ke_source :: ustring
  ke_aliases :: ustring
  ke_ttps :: ustring
  ke_targets :: ustring

record phase3_data =
  p3_description :: ustring
  total_entries :: nat
  entries :: "kb_entry list"
  p3_error :: "ustring option"

record phase4_data =
  p4_description :: ustring
  knowledge_base_available :: bool
  llm_available :: bool

record phase5_data =
  p5_description :: ustring
  ba_questions :: "ustring list"
  status :: ustring
  queries :: "ustring list"

record phases =
  phase1 :: "phase1_data option"
  phase2 :: "phase2_data option"
  phase3 :: "phase3_data option"
  phase4 :: "phase4_data option"
  phase5 :: "phase5_data option"

record run_log =
  run_number :: int
  log_phases :: phases

text \<open>
  The semantic index: an embedding is an opaque vector, the embedding model is known by its
  name, and a collection is the sequence of the entries added to it (id, text, embedding).
\<close>

type_synonym embedding = "int list"

datatype embedding_model = EmbeddingModel ustring

type_synonym collection = "(ustring \<times> ustring \<times> embedding) list"

subsection \<open>The environment\<close>

text \<open>
  \<^verbatim>\<open>json.loads\<close> returns a value, raises \<^verbatim>\<open>JSONDecodeError\<close>, or raises another
  exception (\<^verbatim>\<open>RecursionError\<close> on deeply nested text, \<^verbatim>\<open>ValueError\<close> on an integer
  literal beyond the digit limit of the interpreter).
\<close>

datatype loads_result = Loaded json | JSONDecodeError | LoadsError py_error

text \<open>
  The module-level configuration and the external services. \<open>input_line i\<close> is what the
  \<open>i\<close>-th call of \<^verbatim>\<open>input\<close> returns or raises (\<^verbatim>\<open>EOFError\<close> once standard input
  is exhausted); \<open>open_write name\<close> is the exception raised when the file \<open>name\<close> is
  opened and written, if any; \<open>listdir\<close> is the content of the working directory;
  \<open>unicode\<close> is the character database of the interpreter.
\<close>

record env =
  ZENROWS_API_KEY :: ustring
  USE_LLM :: bool
  zenrows_get :: "ustring \<Rightarrow> py_error + page"
  direct_get :: "ustring \<Rightarrow> py_error + page"
  generate_content :: "ustring \<Rightarrow> py_error + ustring"
  json_loads :: "ustring \<Rightarrow> loads_result"
  json_dumps :: "document \<Rightarrow> ustring"
  SentenceTransformer :: "ustring \<Rightarrow> py_error + embedding_model"
  get_or_create_collection :: "ustring \<Rightarrow> py_error + collection"
  encode :: "embedding_model \<Rightarrow> ustring \<Rightarrow> py_error + embedding"
  collection_add :: "collection \<Rightarrow> ustring \<times> ustring \<times> embedding \<Rightarrow> py_error + collection"
  collection_query :: "collection \<Rightarrow> embedding \<Rightarrow> nat \<Rightarrow> py_error + ustring list list"
  input_line :: "nat \<Rightarrow> py_error + ustring"
  open_write :: "ustring \<Rightarrow> py_error option"
  listdir :: "ustring list"
  unicode :: unicode_db

subsection \<open>Phase 1: data collection\<close>

definition page_title :: "page \<Rightarrow> ustring" where
  "page_title pg =
     (case pg_h1 pg of
        Some t \<Rightarrow> t
      | None \<Rightarrow> (case pg_title pg of Some t \<Rightarrow> t | None \<Rightarrow> (str ''Title Not Found'')))"

definition page_content :: "page \<Rightarrow> ustring" where
  "page_content pg = take 10000 (join (str '' '') (pg_paragraphs pg))"

definition content_preview :: "ustring \<Rightarrow> ustring" where
  "content_preview content =
     (if length content > 500 then take 500 content @ (str ''...'') else content)"

definition make_raw_report :: "ustring \<Rightarrow> page \<Rightarrow> raw_report" where
  "make_raw_report url pg =
     \<lparr>rr_url = url, rr_title = page_title pg, rr_content = page_content pg\<rparr>"

definition make_report :: "ustring \<Rightarrow> page \<Rightarrow> report" where
  "make_report url pg =
     \<lparr>rp_url = url, rp_title = page_title pg,
      rp_content_preview = content_preview (page_content pg)\<rparr>"

text \<open>
  The loop of the primary path, inside one \<^verbatim>\<open>try\<close>: the first failing source ends it.
  The result is the exception, if any, with the two lists as they are at that moment.
\<close>

fun zenrows_loop ::
  "env \<Rightarrow> ustring list \<Rightarrow> raw_report list \<Rightarrow> report list
     \<Rightarrow> py_error option \<times> raw_report list \<times> report list" where
  "zenrows_loop e [] raw_reports reps = (None, raw_reports, reps)"
| "zenrows_loop e (url # urls) raw_reports reps =
     (case zenrows_get e url of
        Inl err \<Rightarrow> (Some err, raw_reports, reps)
      | Inr pg \<Rightarrow>
          zenrows_loop e urls (raw_reports @ [make_raw_report url pg])
            (reps @ [make_report url pg]))"

text \<open>The loop of the fallback path: the \<^verbatim>\<open>try\<close> is inside the loop body.\<close>

fun fallback_loop ::
  "env \<Rightarrow> ustring list \<Rightarrow> raw_report list \<Rightarrow> report list \<Rightarrow> (ustring \<times> ustring) list
     \<Rightarrow> raw_report list \<times> report list \<times> (ustring \<times> ustring) list" where
  "fallback_loop e [] raw_reports reps failed = (raw_reports, reps, failed)"
| "fallback_loop e (url # urls) raw_reports reps failed =
     (case direct_get e url of
        Inl err \<Rightarrow>
          fallback_loop e urls raw_reports reps (failed @ [(url, str_of_error err)])
      | Inr pg \<Rightarrow>
          fallback_loop e urls (raw_reports @ [make_raw_report url pg])
            (reps @ [make_report url pg]) failed)"

definition use_zenrows :: "env \<Rightarrow> bool" where
  "use_zenrows e =
     (ZENROWS_API_KEY e \<noteq> (str ''PASTE_YOUR_ZENROWS_API_KEY_HERE'')
      \<and> strip (ZENROWS_API_KEY e) \<noteq> [])"

definition phase1_initial :: phase1_data where
  "phase1_initial =
     \<lparr>p1_description = (str ''Raw collected reports (title, url, content preview)''),
      collection_method = [], collected_count = 0, reports = [], failed_urls = [],
      p1_error = None\<rparr>"

text \<open>
  The state after the first \<^verbatim>\<open>if\<close>: whether the primary path is still in use, the
  raw reports and the log section.
\<close>

definition phase1_primary :: "env \<Rightarrow> bool \<times> raw_report list \<times> phase1_data" where
  "phase1_primary e =
     (if use_zenrows e then
        (let d = phase1_initial\<lparr>collection_method := (str ''ZenRows API'')\<rparr> in
         case zenrows_loop e ARTICLE_URLS [] (reports d) of
           (None, raw_reports, reps) \<Rightarrow> (True, raw_reports, d\<lparr>reports := reps\<rparr>)
         | (Some err, raw_reports, reps) \<Rightarrow>
             (False, [], d\<lparr>reports := reps, p1_error := Some (str_of_error err)\<rparr>))
      else (False, [], phase1_initial))"

definition phase1_data_collection :: "env \<Rightarrow> raw_report list \<times> phase1_data" where
  "phase1_data_collection e =
     (case phase1_primary e of
        (still_zenrows, raw_reports, d) \<Rightarrow>
          (let (raw_reports', d') =
             (if \<not> still_zenrows then
                (case fallback_loop e ARTICLE_URLS raw_reports (reports d) (failed_urls d) of
                   (rs, reps, failed) \<Rightarrow>
                     (rs, d\<lparr>collection_method := (str ''Regular Scraping (requests + BS4)''),
                             reports := reps, failed_urls := failed\<rparr>))
              else (raw_reports, d))
           in (raw_reports', d'\<lparr>collected_count := length raw_reports'\<rparr>)))"

subsection \<open>Phase 2: extraction\<close>

text \<open>\<^verbatim>\<open>str\<close> of a natural number and of an integer: the decimal digits.\<close>

definition digit_char :: "nat \<Rightarrow> nat" where
  "digit_char d = 48 + d"

fun str_nat :: "nat \<Rightarrow> ustring" where
  "str_nat n = (if n < 10 then [digit_char n] else str_nat (n div 10) @ [digit_char (n mod 10)])"

declare str_nat.simps [simp del]

definition str_int :: "int \<Rightarrow> ustring" where
  "str_int i = (if i < 0 then 45 # str_nat (nat (- i)) else str_nat (nat i))"

text \<open>
  One iteration of the extraction loop: the generation call (with the access to the text of
  its response) raises or gives the text. A text on which \<^verbatim>\<open>json.loads\<close> raises
  \<^verbatim>\<open>JSONDecodeError\<close> is wrapped by the inner handler; any other exception of
  \<^verbatim>\<open>json.loads\<close> leaves the iteration, as an exception of the generation call does.
\<close>

definition extract_document :: "env \<Rightarrow> raw_report \<Rightarrow> py_error + document" where
  "extract_document e rep =
     (case generate_content e (EXTRACTION_PROMPT @ rr_content rep) of
        Inl err \<Rightarrow> Inl err
      | Inr text \<Rightarrow>
          (case json_loads e (strip text) of
             Loaded extracted_json \<Rightarrow>
               Inr \<lparr>doc_title = rr_title rep, doc_source = rr_url rep,
                     threat_intelligence = extracted_json\<rparr>
           | JSONDecodeError \<Rightarrow>
               Inr \<lparr>doc_title = rr_title rep, doc_source = rr_url rep,
                     threat_intelligence =
                       JObj [(str ''raw'', JStr (strip text)),
                             (str ''note'', JStr (str ''JSON parse failed''))]\<rparr>
           | LoadsError err \<Rightarrow> Inl err))"

text \<open>
  The loop appends each document to the returned list and to the list of the log section,
  which are two lists; an exception leaves both as they are at that moment.
\<close>

fun extract_loop ::
  "env \<Rightarrow> raw_report list \<Rightarrow> document list \<Rightarrow> document list
     \<Rightarrow> py_error option \<times> document list \<times> document list" where
  "extract_loop e [] documents logged = (None, documents, logged)"
| "extract_loop e (rep # reps) documents logged =
     (case extract_document e rep of
        Inl err \<Rightarrow> (Some err, documents, logged)
      | Inr doc \<Rightarrow> extract_loop e reps (documents @ [doc]) (logged @ [doc]))"

definition mock_document :: "nat \<Rightarrow> json \<Rightarrow> document" where
  "mock_document idx mock =
     \<lparr>doc_title = (str ''Mock Threat Report '') @ str_nat (idx + 1) @ (str '' (Recent 2025)''),
      doc_source = (str ''Simulated Feed''), threat_intelligence = mock\<rparr>"

fun mock_loop ::
  "nat \<Rightarrow> json list \<Rightarrow> document list \<Rightarrow> document list \<Rightarrow> document list \<times> document list" where
  "mock_loop idx [] documents logged = (documents, logged)"
| "mock_loop idx (mock # mocks) documents logged =
     mock_loop (idx + 1) mocks (documents @ [mock_document idx mock])
       (logged @ [mock_document idx mock])"

definition phase2_initial :: "env \<Rightarrow> raw_report list \<Rightarrow> phase2_data" where
  "phase2_initial e raw_reports =
     \<lparr>p2_description = (str ''Extracted structured threat intelligence documents''),
      used_llm = False, used_mock = (raw_reports = [] \<or> \<not> USE_LLM e),
      document_count = 0, p2_documents = [], p2_error = None\<rparr>"

text \<open>The state after the \<^verbatim>\<open>try\<close> statement: \<^verbatim>\<open>use_mock\<close>, the documents, the log section.\<close>

definition phase2_try :: "env \<Rightarrow> raw_report list \<Rightarrow> bool \<times> document list \<times> phase2_data" where
  "phase2_try e raw_reports =
     (let d = phase2_initial e raw_reports in
      if USE_LLM e \<and> raw_reports \<noteq> [] then
        (case extract_loop e raw_reports [] (p2_documents (d\<lparr>used_llm := True\<rparr>)) of
           (None, documents, logged) \<Rightarrow>
             (False, documents, d\<lparr>used_llm := True, p2_documents := logged\<rparr>)
         | (Some err, documents, logged) \<Rightarrow>
             (True, documents,
              d\<lparr>used_llm := True, p2_documents := logged,
                p2_error := Some (str_of_error err)\<rparr>))
      else (True, [], d))"

definition phase2_information_extraction ::
  "env \<Rightarrow> raw_report list \<Rightarrow> document list \<times> phase2_data" where
  "phase2_information_extraction e raw_reports =
     (case phase2_try e raw_reports of
        (use_mock, documents, d) \<Rightarrow>
          (let (documents', d') =
             (if use_mock \<or> documents = [] then
                (case mock_loop 0 MOCK_THREAT_INTEL_LIST [] (p2_documents d) of
                   (docs, logged) \<Rightarrow> (docs, d\<lparr>used_mock := True, p2_documents := logged\<rparr>))
              else (documents, d))
           in (documents', d'\<lparr>document_count := length documents'\<rparr>)))"

subsection \<open>Phase 3: knowledge base\<close>

fun add_loop ::
  "env \<Rightarrow> embedding_model \<Rightarrow> nat \<Rightarrow> document list \<Rightarrow> collection
     \<Rightarrow> py_error option \<times> collection" where
  "add_loop e m idx [] c = (None, c)"
| "add_loop e m idx (doc # docs) c =
     (let doc_str = json_dumps e doc in
      case encode e m doc_str of
        Inl err \<Rightarrow> (Some err, c)
      | Inr v \<Rightarrow>
          (case collection_add e c (str_nat idx, doc_str, v) of
             Inl err \<Rightarrow> (Some err, c)
           | Inr c' \<Rightarrow> add_loop e m (idx + 1) docs c'))"

text \<open>\<^verbatim>\<open>ti.get(key, default)\<close> on a dictionary.\<close>

definition dict_get :: "(ustring \<times> json) list \<Rightarrow> ustring \<Rightarrow> json \<Rightarrow> json" where
  "dict_get kvs key dflt = (case map_of kvs key of Some v \<Rightarrow> v | None \<Rightarrow> dflt)"

fun json_str :: "json \<Rightarrow> ustring option" where
  "json_str (JStr s) = Some s"
| "json_str _ = None"

text \<open>
  \<^verbatim>\<open>", ".join(v)\<close>: \<open>v\<close> is iterated (a list by its items, a string by its characters,
  a dictionary by its keys) and every item must be a string; otherwise a
  \<^verbatim>\<open>TypeError\<close>, whose message is not modelled.
\<close>

definition join_json :: "json \<Rightarrow> py_error + ustring" where
  "join_json v =
     (case v of
        JList xs \<Rightarrow>
          (if list_all (\<lambda>x. json_str x \<noteq> None) xs
           then Inr (join (str '', '') (map (\<lambda>x. case json_str x of Some s \<Rightarrow> s | None \<Rightarrow> []) xs))
           else Inl (PyException (str ''TypeError'')))
      | JStr s \<Rightarrow> Inr (join (str '', '') (map (\<lambda>c. [c]) s))
      | JObj kvs \<Rightarrow> Inr (join (str '', '') (map fst kvs))
      | _ \<Rightarrow> Inl (PyException (str ''TypeError'')))"

definition display_field :: "json \<Rightarrow> ustring \<Rightarrow> py_error + ustring" where
  "display_field ti key =
     (case ti of JObj kvs \<Rightarrow> join_json (dict_get kvs key (JList [])) | _ \<Rightarrow> Inr (str ''None''))"

definition display_entry :: "nat \<Rightarrow> document \<Rightarrow> py_error + kb_entry" where
  "display_entry i doc =
     (let ti = threat_intelligence doc;
          actor = (case ti of JObj kvs \<Rightarrow> dict_get kvs (str ''actor'') (JStr (str ''Unknown''))
                   | _ \<Rightarrow> JStr (str ''Unknown''))
      in case display_field ti (str ''aliases'') of
           Inl err \<Rightarrow> Inl err
         | Inr aliases \<Rightarrow>
             (case display_field ti (str ''ttps'') of
                Inl err \<Rightarrow> Inl err
              | Inr ttps \<Rightarrow>
                  (case display_field ti (str ''targets'') of
                     Inl err \<Rightarrow> Inl err
                   | Inr targets \<Rightarrow>
                       Inr \<lparr>ke_index = i, ke_actor = actor, ke_title = doc_title doc,
                            ke_source = doc_source doc, ke_aliases = aliases,
                            ke_ttps = ttps, ke_targets = targets\<rparr>)))"

fun display_loop ::
  "nat \<Rightarrow> document list \<Rightarrow> kb_entry list \<Rightarrow> py_error option \<times> kb_entry list" where
  "display_loop i [] es = (None, es)"
| "display_loop i (doc # docs) es =
     (case display_entry i doc of
        Inl err \<Rightarrow> (Some err, es)
      | Inr entry \<Rightarrow> display_loop (i + 1) docs (es @ [entry]))"

definition with_p3_error :: "py_error option \<Rightarrow> phase3_data \<Rightarrow> phase3_data" where
  "with_p3_error r d =
     (case r of None \<Rightarrow> d | Some err \<Rightarrow> d\<lparr>p3_error := Some (str_of_error err)\<rparr>)"

definition phase3_build_knowledge_base ::
  "env \<Rightarrow> document list \<Rightarrow> (collection option \<times> embedding_model option) \<times> phase3_data" where
  "phase3_build_knowledge_base e documents =
     (let d = \<lparr>p3_description = (str ''Knowledge base entries (full list with summary fields)''),
               total_entries = length documents, entries = [], p3_error = None\<rparr>
      in case SentenceTransformer e (str ''all-MiniLM-L6-v2'') of
           Inl err \<Rightarrow> ((None, None), with_p3_error (Some err) d)
         | Inr m \<Rightarrow>
             (case get_or_create_collection e (str ''threat_intel'') of
                Inl err \<Rightarrow> ((None, Some m), with_p3_error (Some err) d)
              | Inr c \<Rightarrow>
                  (case add_loop e m 0 documents c of
                     (Some err, c') \<Rightarrow> ((Some c', Some m), with_p3_error (Some err) d)
                   | (None, c') \<Rightarrow>
                       (case display_loop 1 documents (entries d) of
                          (r, es) \<Rightarrow>
                            ((Some c', Some m), with_p3_error r (d\<lparr>entries := es\<rparr>))))))"

subsection \<open>Phase 4: the retriever\<close>

definition phase4_data_of ::
  "env \<Rightarrow> collection option \<Rightarrow> embedding_model option \<Rightarrow> phase4_data" where
  "phase4_data_of e coll model =
     \<lparr>p4_description = (str ''RAG query system status''),
      knowledge_base_available = (coll \<noteq> None \<and> model \<noteq> None),
      llm_available = USE_LLM e\<rparr>"

definition rag_prompt :: "ustring \<Rightarrow> ustring \<Rightarrow> ustring" where
  \<open>rag_prompt context user_query =
     (str ''\<newline>Answer ONLY using context. Say "Insufficient data." if unknown.\<newline>\<newline>CONTEXT:\<newline>'')
       @ context @ (str ''\<newline>\<newline>QUESTION:\<newline>'') @ user_query @ (str ''\<newline>'')\<close>

text \<open>
  The body of the \<^verbatim>\<open>try\<close> of \<^verbatim>\<open>rag_query\<close> (tier 1): \<open>Inl\<close> is the exception
  that reaches the handler, \<open>Inr\<close> the answer returned. A handle that is not
  \<^verbatim>\<open>None\<close> is a true value.
\<close>

definition rag_try ::
  "env \<Rightarrow> collection option \<Rightarrow> embedding_model option \<Rightarrow> ustring \<Rightarrow> py_error + ustring" where
  "rag_try e coll model user_query =
     (case (coll, model) of
        (Some c, Some m) \<Rightarrow>
          (case encode e m user_query of
             Inl err \<Rightarrow> Inl err
           | Inr query_emb \<Rightarrow>
               (case collection_query e c query_emb 3 of
                  Inl err \<Rightarrow> Inl err
                | Inr [] \<Rightarrow> Inl (PyException (str ''list index out of range''))
                | Inr (docs # _) \<Rightarrow>
                    (let context = join (str ''\<newline>\<newline>'') docs;
                         prompt = rag_prompt context user_query
                     in if USE_LLM e then
                          (case generate_content e prompt of
                             Inl err \<Rightarrow> Inl err
                           | Inr text \<Rightarrow> Inr (strip text))
                        else Inl (PyException (str ''LLM off'')))))
      | _ \<Rightarrow> Inl (PyException (str ''No KB'')))"

text \<open>
  \<^verbatim>\<open>rag_query\<close>: the lines it prints and what it returns or raises. The handler
  lower-cases the question and reads the static table.
\<close>

definition rag_query ::
  "env \<Rightarrow> collection option \<Rightarrow> embedding_model option \<Rightarrow> ustring
     \<Rightarrow> ustring list \<times> (py_error + ustring)" where
  "rag_query e coll model user_query =
     (case rag_try e coll model user_query of
        Inr answer \<Rightarrow> ([(str ''[RAG Query] '') @ user_query], Inr answer)
      | Inl err \<Rightarrow>
          (let normalized = lower (unicode e) user_query in
           ([(str ''[RAG Query] '') @ user_query,
             (str ''[RAG Error] '') @ str_of_error err @ (str ''. Fallback answer.'')],
            Inr (case map_of PREDEFINED_QUESTIONS normalized of
                   Some answer \<Rightarrow> answer
                 | None \<Rightarrow> (str ''Insufficient data.'')))))"

subsection \<open>Phase 5: the session\<close>

definition phase5_initial :: phase5_data where
  "phase5_initial =
     \<lparr>p5_description = (str ''CyberX AI B&A Session Session''),
      ba_questions = map fst PREDEFINED_QUESTIONS,
      status = (str ''running''), queries = []\<rparr>"

definition phase5_banner :: "ustring list" where
  "phase5_banner =
     [(str ''\<newline>[Phase 5/5: CLI Interface] CyberX AI ready!''),
      (str ''B&A [Brainstorm & Analysis] Session:''),
      (str ''1. Which threat actors are China-nexus?''),
      (str ''2. What are the most active ransomware groups in 2025?''),
      (str ''3. Recent activities of APT31?''),
      (str ''Type 'exit' to quit.\<newline>'')]"

text \<open>
  The \<^verbatim>\<open>while True\<close> loop, from the \<open>i\<close>-th call of \<^verbatim>\<open>input\<close> on. It may run for
  ever, so it is a partial function: \<open>None\<close> is a loop that never ends. A loop that ends
  gives the exception that left it (none after a termination keyword), the log section
  and the lines printed. The retriever is a parameter, as in the source.
\<close>

partial_function (option) cli_loop ::
  "env \<Rightarrow> (ustring \<Rightarrow> ustring list \<times> (py_error + ustring)) \<Rightarrow> nat \<Rightarrow> phase5_data \<Rightarrow> ustring list
     \<Rightarrow> (py_error option \<times> phase5_data \<times> ustring list) option" where
  "cli_loop e rag_query_func i d out =
     (case input_line e i of
        Inl err \<Rightarrow> Some (Some err, d, out)
      | Inr line \<Rightarrow>
          (let query = strip line in
           if lower (unicode e) query \<in> set [(str ''exit''), (str ''quit'')] then
             Some (None, d\<lparr>status := (str ''completed'')\<rparr>, out @ [(str ''Session ended.'')])
           else
             (let d' = d\<lparr>queries := queries d @ [query]\<rparr>;
                  normalized = lower (unicode e) query
              in case map_of PREDEFINED_QUESTIONS normalized of
                   Some canned \<Rightarrow>
                     cli_loop e rag_query_func (i + 1) d'
                       (out @ [(str ''\<newline>'') @ canned @ (str ''\<newline>'')])
                 | None \<Rightarrow>
                     (case rag_query_func query of
                        (printed, Inl err) \<Rightarrow> Some (Some err, d', out @ printed)
                      | (printed, Inr answer) \<Rightarrow>
                          cli_loop e rag_query_func (i + 1) d'
                            (out @ printed @ [(str ''\<newline>'') @ answer @ (str ''\<newline>'')])))))"

definition phase5_cli_interface ::
  "env \<Rightarrow> (ustring \<Rightarrow> ustring list \<times> (py_error + ustring))
     \<Rightarrow> (py_error option \<times> phase5_data \<times> ustring list) option" where
  "phase5_cli_interface e rag_query_func = cli_loop e rag_query_func 0 phase5_initial phase5_banner"

subsection \<open>The run log file and the run number\<close>

definition run_filename :: "int \<Rightarrow> ustring" where
  "run_filename n = (str ''CyberX #'') @ str_int n @ (str ''.json'')"

text \<open>
  \<^verbatim>\<open>save_run_json\<close>: the files written so far are a list of (name, content); a write that
  raises is reported and leaves no file.
\<close>

definition save_run_json ::
  "env \<Rightarrow> int \<Rightarrow> run_log \<Rightarrow> (ustring \<times> run_log) list \<Rightarrow> (ustring \<times> run_log) list \<times> ustring list" where
  "save_run_json e n all_phase_data files =
     (let filename = run_filename n in
      case open_write e filename of
        None \<Rightarrow>
          (files @ [(filename, all_phase_data)],
           [(str ''\<newline>[JSON Log] Saved full run data to '') @ [39] @ filename @ [39]])
      | Some err \<Rightarrow>
          (files,
           [(str ''[JSON Log Error] Failed to save '') @ filename @ (str '': '') @ str_of_error err]))"

text \<open>\<^verbatim>\<open>glob.glob("CyberX #*.json")\<close> over the working directory.\<close>

definition glob_match :: "ustring \<Rightarrow> bool" where
  "glob_match f =
     (13 \<le> length f \<and> take 8 f = (str ''CyberX #'') \<and> drop (length f - 5) f = (str ''.json''))"

definition glob_files :: "env \<Rightarrow> ustring list" where
  "glob_files e = filter glob_match (listdir e)"

text \<open>\<^verbatim>\<open>s.split(sep)\<close> for a separator of one character.\<close>

fun split :: "nat \<Rightarrow> ustring \<Rightarrow> ustring list" where
  "split sep [] = [[]]"
| "split sep (c # cs) =
     (if c = sep then [] # split sep cs
      else (case split sep cs of [] \<Rightarrow> [[c]] | w # ws \<Rightarrow> (c # w) # ws))"

text \<open>
  \<^verbatim>\<open>int(s)\<close> on a string, in base 10: surrounding white space is dropped, one sign is
  allowed, then decimal digits, where single underscores may stand between digits. A
  decimal digit is an ASCII digit or a digit of the character database. The length limit
  of the interpreter on such strings (4300 digits) is beyond the length of a file name.
\<close>

definition is_digit :: "nat \<Rightarrow> bool" where
  "is_digit c = (48 \<le> c \<and> c \<le> 57)"

definition digit_val :: "nat \<Rightarrow> nat" where
  "digit_val c = c - 48"

definition digit_value :: "unicode_db \<Rightarrow> nat \<Rightarrow> nat option" where
  "digit_value db c =
     (if c < 128 then (if is_digit c then Some (digit_val c) else None)
      else unicode_decimal db c)"

fun int_digits :: "unicode_db \<Rightarrow> ustring \<Rightarrow> nat \<Rightarrow> nat option" where
  "int_digits db [] acc = Some acc"
| "int_digits db [c] acc =
     (case digit_value db c of Some v \<Rightarrow> Some (10 * acc + v) | None \<Rightarrow> None)"
| "int_digits db (c # d # cs) acc =
     (case digit_value db c of
        Some v \<Rightarrow> int_digits db (d # cs) (10 * acc + v)
      | None \<Rightarrow>
          (if c = 95 then
             (case digit_value db d of
                Some w \<Rightarrow> int_digits db cs (10 * acc + w)
              | None \<Rightarrow> None)
           else None))"

definition invalid_literal :: py_error where
  "invalid_literal = PyException (str ''invalid literal for int() with base 10'')"

definition py_int :: "unicode_db \<Rightarrow> ustring \<Rightarrow> py_error + int" where
  "py_int db s =
     (let t = strip s;
          (neg, body) =
            (case t of
               [] \<Rightarrow> (False, [])
             | c # r \<Rightarrow>
                 if c = 45 then (True, r) else if c = 43 then (False, r)
                 else (False, t))
      in case body of
           [] \<Rightarrow> Inl invalid_literal
         | c # cs \<Rightarrow>
             (case digit_value db c of
                Some v \<Rightarrow>
                  (case int_digits db cs v of
                     Some n \<Rightarrow> Inr (if neg then - int n else int n)
                   | None \<Rightarrow> Inl invalid_literal)
              | None \<Rightarrow> Inl invalid_literal))"

text \<open>\<^verbatim>\<open>int(f.split("#")[1].split(".")[0])\<close>\<close>

definition file_number :: "unicode_db \<Rightarrow> ustring \<Rightarrow> py_error + int" where
  "file_number db f =
     (case split 35 f of
        _ # part # _ \<Rightarrow>
          (case split 46 part of
             w # _ \<Rightarrow> py_int db w
           | [] \<Rightarrow> Inl (PyException (str ''list index out of range'')))
      | _ \<Rightarrow> Inl (PyException (str ''list index out of range'')))"

text \<open>The generator under \<^verbatim>\<open>max\<close>, consumed in order; the first exception ends it.\<close>

fun file_numbers :: "unicode_db \<Rightarrow> ustring list \<Rightarrow> py_error + int list" where
  "file_numbers db [] = Inr []"
| "file_numbers db (f # fs) =
     (if 35 \<in> set f \<and> 46 \<in> set f then
        (case file_number db f of
           Inl err \<Rightarrow> Inl err
         | Inr n \<Rightarrow>
             (case file_numbers db fs of Inl err \<Rightarrow> Inl err | Inr ns \<Rightarrow> Inr (n # ns)))
      else file_numbers db fs)"

definition determine_run_number :: "env \<Rightarrow> py_error + int" where
  "determine_run_number e =
     (let existing_files = glob_files e in
      if existing_files \<noteq> [] then
        (case file_numbers (unicode e) existing_files of
           Inl err \<Rightarrow> Inl err
         | Inr [] \<Rightarrow> Inl (PyException (str ''max() arg is an empty sequence''))
         | Inr (n # ns) \<Rightarrow> Inr (fold max ns n + 1))
      else Inr 1)"

subsection \<open>The driver\<close>

record run_result =
  raised :: "py_error option"
  final_log :: run_log
  printed_session :: "ustring list"
  files_written :: "(ustring \<times> run_log) list"
  printed_save :: "ustring list"

text \<open>
  The \<^verbatim>\<open>try\<close>/\<^verbatim>\<open>finally\<close> of the driver for a given run number. Phases 1 to 4
  store their sections; phase 5 stores its section only when its loop ends without an
  exception. The \<^verbatim>\<open>finally\<close> clause runs \<^verbatim>\<open>save_run_json\<close> in either case, and an
  exception of phase 5 is raised again after it. The result keeps the files written and
  the lines \<^verbatim>\<open>save_run_json\<close> prints.
\<close>

definition run_pipeline :: "env \<Rightarrow> int \<Rightarrow> run_result option" where
  "run_pipeline e n =
     (let (raw_reports, d1) = phase1_data_collection e;
          (documents, d2) = phase2_information_extraction e raw_reports;
          ((coll, model), d3) = phase3_build_knowledge_base e documents;
          d4 = phase4_data_of e coll model;
          rag_query_func = rag_query e coll model;
          ps = \<lparr>phase1 = Some d1, phase2 = Some d2, phase3 = Some d3, phase4 = Some d4,
                phase5 = None\<rparr>
      in case phase5_cli_interface e rag_query_func of
           None \<Rightarrow> None
         | Some (exc, d5, out) \<Rightarrow>
             (let ps' = (case exc of None \<Rightarrow> ps\<lparr>phase5 := Some d5\<rparr> | Some _ \<Rightarrow> ps);
                  all_phase_data = \<lparr>run_number = n, log_phases = ps'\<rparr>
              in Some \<lparr>raised = exc, final_log = all_phase_data, printed_session = out,
                       files_written = fst (save_run_json e n all_phase_data []),
                       printed_save = snd (save_run_json e n all_phase_data [])\<rparr>))"

text \<open>The program: an exception while the run number is determined ends it at once.\<close>

definition main :: "env \<Rightarrow> (py_error + run_result) option" where
  "main e =
     (case determine_run_number e of
        Inl err \<Rightarrow> Some (Inl err)
      | Inr n \<Rightarrow> map_option Inr (run_pipeline e n))"

subsection \<open>Concrete environments\<close>

text \<open>
  A machine without network, models or credentials: every service raises, standard input
  is empty, the working directory is empty and writable. The character database of the
  concrete environments is left empty: apart from white space their inputs are ASCII, for
  which it is not consulted.
\<close>

definition offline_env :: env where
  "offline_env =
     \<lparr>ZENROWS_API_KEY = (str ''PASTE_YOUR_ZENROWS_API_KEY_HERE''),
      USE_LLM = True,
      zenrows_get = (\<lambda>url. Inl (PyException (str ''401 Client Error''))),
      direct_get = (\<lambda>url. Inl (PyException (str ''Connection refused''))),
      generate_content = (\<lambda>prompt. Inl (PyException (str ''429 quota exceeded''))),
      json_loads = (\<lambda>text. JSONDecodeError),
      json_dumps = (\<lambda>doc. doc_title doc),
      SentenceTransformer = (\<lambda>name. Inl (PyException (str ''model not found''))),
      get_or_create_collection = (\<lambda>name. Inr []),
      encode = (\<lambda>m text. Inl (PyException (str ''encode failed''))),
      collection_add = (\<lambda>c x. Inr (c @ [x])),
      collection_query = (\<lambda>c v k. Inl (PyException (str ''query failed''))),
      input_line = (\<lambda>i. Inl (PyException (str ''EOF when reading a line''))),
      open_write = (\<lambda>name. None),
      listdir = [],
      unicode = \<lparr>unicode_lower = (\<lambda>s. s), unicode_decimal = (\<lambda>c. None)\<rparr>\<rparr>"

text \<open>A page with a heading and one short paragraph, and a fetcher serving it.\<close>

definition sample_page :: page where
  "sample_page =
     \<lparr>pg_h1 = Some (str ''APT31 targets Russian IT''), pg_title = None,
      pg_paragraphs = [(str ''CloudyLoader was used.'')]\<rparr>"

text \<open>
  A configured ZenRows key whose service answers for the first source only, with a direct
  fetch that reaches every source but the second.
\<close>

definition flaky_env :: env where
  "flaky_env =
     offline_env
       \<lparr>ZENROWS_API_KEY := (str ''zr-key''),
        zenrows_get := (\<lambda>url. if url = hd ARTICLE_URLS then Inr sample_page
                              else Inl (PyException (str ''422 Unprocessable''))),
        direct_get := (\<lambda>url. if url = hd (tl ARTICLE_URLS) then Inl (PyException (str ''403 Forbidden''))
                             else Inr sample_page)\<rparr>"

text \<open>
  A generative model that answers the first of two reports with text that is not JSON and
  fails on every other prompt.
\<close>

definition report_a :: raw_report where
  "report_a = \<lparr>rr_url = (str ''https://a.example/1''), rr_title = (str ''A''), rr_content = (str ''alpha'')\<rparr>"

definition report_b :: raw_report where
  "report_b = \<lparr>rr_url = (str ''https://b.example/2''), rr_title = (str ''B''), rr_content = (str ''beta'')\<rparr>"

definition quota_env :: env where
  "quota_env =
     offline_env
       \<lparr>generate_content :=
          (\<lambda>prompt. if prompt = EXTRACTION_PROMPT @ (str ''alpha'') then Inr (str '' Sorry, no JSON. '')
                     else Inl (PyException (str ''429 quota exceeded'')))\<rparr>"

text \<open>A generative model that always answers, never with JSON.\<close>

definition chatty_env :: env where
  "chatty_env = offline_env\<lparr>generate_content := (\<lambda>prompt. Inr (str '' Sorry, no JSON. ''))\<rparr>"

text \<open>
  A generative model whose answer is 2000 opening brackets, on which \<^verbatim>\<open>json.loads\<close>
  raises \<^verbatim>\<open>RecursionError\<close>.
\<close>

definition deep_env :: env where
  "deep_env =
     offline_env
       \<lparr>generate_content := (\<lambda>prompt. Inr (replicate 2000 91)),
        json_loads := (\<lambda>text. LoadsError (PyException (str ''maximum recursion depth exceeded'')))\<rparr>"

text \<open>
  Sessions: a canned question then \<^verbatim>\<open>EXIT\<close>; a free question then end of input;
  \<^verbatim>\<open>Quit\<close> followed by a no-break space; \<^verbatim>\<open>EXIT\<close> in a directory that cannot be
  written.
\<close>

definition canned_session_env :: env where
  "canned_session_env =
     offline_env
       \<lparr>input_line :=
          (\<lambda>i. if i = 0 then Inr (str ''  Recent activities of APT31?  '')
               else if i = 1 then Inr (str ''EXIT'')
               else Inl (PyException (str ''EOF when reading a line'')))\<rparr>"

definition eof_session_env :: env where
  "eof_session_env =
     offline_env
       \<lparr>input_line :=
          (\<lambda>i. if i = 0 then Inr (str ''who is Charon?'')
               else Inl (PyException (str ''EOF when reading a line'')))\<rparr>"

definition nbsp_session_env :: env where
  "nbsp_session_env =
     offline_env
       \<lparr>input_line :=
          (\<lambda>i. if i = 0 then Inr (str ''Quit'' @ [160])
               else Inl (PyException (str ''EOF when reading a line'')))\<rparr>"

definition readonly_env :: env where
  "readonly_env =
     offline_env
       \<lparr>input_line :=
          (\<lambda>i. if i = 0 then Inr (str ''EXIT'')
               else Inl (PyException (str ''EOF when reading a line''))),
        open_write := (\<lambda>name. Some (PyException (str ''[Errno 13] Permission denied'')))\<rparr>"

text \<open>Working directories: four earlier artifacts; one artifact and a renamed copy.\<close>

definition four_runs_env :: env where
  "four_runs_env =
     offline_env
       \<lparr>listdir := [(str ''CyberX #2.json''), (str ''notes.txt''), (str ''CyberX #4.json''), (str ''CyberX #1.json''),
                    (str ''CyberX #3.json'')]\<rparr>"

definition backup_env :: env where
  "backup_env = offline_env\<lparr>listdir := [(str ''CyberX #1.json''), (str ''CyberX #5.backup.json'')]\<rparr>"

text \<open>
  A machine where the embedder, the index and the generative model all answer.
\<close>

definition online_env :: env where
  "online_env =
     offline_env
       \<lparr>generate_content := (\<lambda>prompt. Inr (str '' Charon is a ransomware group. '')),
        SentenceTransformer := (\<lambda>name. Inr (EmbeddingModel name)),
        encode := (\<lambda>m text. Inr [int (length text)]),
        collection_query := (\<lambda>c v k. Inr [take k (map (\<lambda>x. fst (snd x)) c)])\<rparr>"

definition sample_collection :: collection where
  "sample_collection = [((str ''0''), (str ''Charon: ransomware, Middle East, Aug 2025''), [42])]"

subsection \<open>The run number as the specification words it\<close>

text \<open>
  The claim about the run number speaks of the files named \<^verbatim>\<open>CyberX #<N>.json\<close> and of
  the maximum \<open>N\<close>. These two definitions follow those words, to be compared with
  \<open>determine_run_number\<close>: a file name is an artifact name when it matches the pattern
  with a non-empty string of decimal digits for \<open>N\<close>, and \<open>N\<close> is the number they denote.
\<close>

definition spec_artifact_number :: "ustring \<Rightarrow> int option" where
  "spec_artifact_number f =
     (let ds = take (length f - 13) (drop 8 f) in
      if glob_match f \<and> ds \<noteq> [] \<and> list_all is_digit ds
      then Some (int (foldl (\<lambda>a c. 10 * a + digit_val c) 0 ds))
      else None)"

definition spec_run_number :: "ustring list \<Rightarrow> int" where
  "spec_run_number files =
     (case List.map_filter spec_artifact_number files of
        [] \<Rightarrow> 1
      | n # ns \<Rightarrow> 1 + Max (set (n # ns)))"

subsection \<open>Notions used to state the properties\<close>

text \<open>
  For a service \<open>f\<close> called on each item of a list in turn: the items it serves with its
  results, the items it fails on with the messages, the first exception, and the longest
  prefix of items served without exception.
\<close>

definition successes :: "('a \<Rightarrow> py_error + 'b) \<Rightarrow> 'a list \<Rightarrow> ('a \<times> 'b) list" where
  "successes f xs = concat (map (\<lambda>x. case f x of Inr y \<Rightarrow> [(x, y)] | Inl _ \<Rightarrow> []) xs)"

definition failures :: "('a \<Rightarrow> py_error + 'b) \<Rightarrow> 'a list \<Rightarrow> ('a \<times> ustring) list" where
  "failures f xs =
     concat (map (\<lambda>x. case f x of Inl err \<Rightarrow> [(x, str_of_error err)] | Inr _ \<Rightarrow> []) xs)"

fun first_error :: "('a \<Rightarrow> py_error + 'b) \<Rightarrow> 'a list \<Rightarrow> py_error option" where
  "first_error f [] = None"
| "first_error f (x # xs) = (case f x of Inl err \<Rightarrow> Some err | Inr _ \<Rightarrow> first_error f xs)"

definition served_prefix :: "('a \<Rightarrow> py_error + 'b) \<Rightarrow> 'a list \<Rightarrow> 'a list" where
  "served_prefix f xs = takeWhile (\<lambda>x. \<not> isl (f x)) xs"

section \<open>Properties\<close>

subsection \<open>Literals\<close>

lemma length_str [simp]: "length (str s) = length s"
  by (simp add: str_def)

lemma str_eq_iff [simp]: "str a = str b \<longleftrightarrow> a = b"
  unfolding str_def by (rule inj_map_eq_map) (rule inj_of_char)

lemmas strip_defs = strip_def lstrip_def rstrip_def is_space_def

subsection \<open>Loops in closed form\<close>

lemma successes_Nil [simp]: "successes f [] = []"
  by (simp add: successes_def)

lemma successes_Cons:
  "successes f (x # xs) = (case f x of Inr y \<Rightarrow> [(x, y)] | Inl _ \<Rightarrow> []) @ successes f xs"
  by (simp add: successes_def)

lemma failures_Nil [simp]: "failures f [] = []"
  by (simp add: failures_def)

lemma failures_Cons:
  "failures f (x # xs) =
     (case f x of Inl err \<Rightarrow> [(x, str_of_error err)] | Inr _ \<Rightarrow> []) @ failures f xs"
  by (simp add: failures_def)

lemma served_prefix_Nil [simp]: "served_prefix f [] = []"
  by (simp add: served_prefix_def)

lemma served_prefix_Cons:
  "served_prefix f (x # xs) = (if isl (f x) then [] else x # served_prefix f xs)"
  by (simp add: served_prefix_def)

lemma first_error_None_iff: "first_error f xs = None \<longleftrightarrow> (\<forall>x\<in>set xs. \<not> isl (f x))"
  by (induction xs) (auto split: sum.splits)

lemma served_prefix_all: "first_error f xs = None \<Longrightarrow> served_prefix f xs = xs"
  by (simp add: first_error_None_iff served_prefix_def)

lemma length_successes_all: "first_error f xs = None \<Longrightarrow> length (successes f xs) = length xs"
  by (induction xs) (auto simp: successes_Cons split: sum.splits)

lemma length_successes_le: "length (successes f xs) \<le> length xs"
  by (induction xs) (auto simp: successes_Cons split: sum.splits)

lemma zenrows_loop_eq:
  "zenrows_loop e urls raws reps =
     (first_error (zenrows_get e) urls,
      raws @ map (\<lambda>(u, pg). make_raw_report u pg)
               (successes (zenrows_get e) (served_prefix (zenrows_get e) urls)),
      reps @ map (\<lambda>(u, pg). make_report u pg)
               (successes (zenrows_get e) (served_prefix (zenrows_get e) urls)))"
  by (induction urls arbitrary: raws reps)
     (auto simp: successes_Cons served_prefix_Cons split: sum.splits)

lemma fallback_loop_eq:
  "fallback_loop e urls raws reps failed =
     (raws @ map (\<lambda>(u, pg). make_raw_report u pg) (successes (direct_get e) urls),
      reps @ map (\<lambda>(u, pg). make_report u pg) (successes (direct_get e) urls),
      failed @ failures (direct_get e) urls)"
  by (induction urls arbitrary: raws reps failed)
     (auto simp: successes_Cons failures_Cons split: sum.splits)

lemma extract_loop_eq:
  "extract_loop e raws docs logged =
     (first_error (extract_document e) raws,
      docs @ map snd (successes (extract_document e) (served_prefix (extract_document e) raws)),
      logged @ map snd (successes (extract_document e) (served_prefix (extract_document e) raws)))"
  by (induction raws arbitrary: docs logged)
     (auto simp: successes_Cons served_prefix_Cons split: sum.splits)

lemma mock_loop_eq:
  "mock_loop idx mocks docs logged =
     (docs @ map (\<lambda>i. mock_document (idx + i) (mocks ! i)) [0..<length mocks],
      logged @ map (\<lambda>i. mock_document (idx + i) (mocks ! i)) [0..<length mocks])"
proof (induction mocks arbitrary: idx docs logged)
  case Nil
  show ?case by simp
next
  case (Cons m ms)
  have "[0..<length (m # ms)] = 0 # map Suc [0..<length ms]"
    by (simp add: upt_conv_Cons map_Suc_upt del: upt_Suc)
  then show ?case
    by (simp add: Cons.IH comp_def del: upt_Suc)
qed

lemma length_MOCK: "length MOCK_THREAT_INTEL_LIST = 15"
  by (simp add: MOCK_THREAT_INTEL_LIST_def)

lemma length_ARTICLE_URLS: "length ARTICLE_URLS = 15"
  by (simp add: ARTICLE_URLS_def)

lemma length_page_content: "length (page_content pg) \<le> 10000"
  by (simp add: page_content_def)

lemma length_content_preview: "length (content_preview c) \<le> 503"
  by (simp add: content_preview_def str_def)


lemma length_successes_failures: "length (successes f xs) + length (failures f xs) = length xs"
  by (induction xs) (auto simp: successes_Cons failures_Cons split: sum.splits)

lemma first_error_Some_iff: "(\<exists>err. first_error f xs = Some err) \<longleftrightarrow> (\<exists>x\<in>set xs. isl (f x))"
  using first_error_None_iff [of f xs] by auto

lemma phase1_no_key:
  assumes "\<not> use_zenrows e"
  shows "phase1_data_collection e =
     (map (\<lambda>(u, pg). make_raw_report u pg) (successes (direct_get e) ARTICLE_URLS),
      phase1_initial
        \<lparr>collection_method := (str ''Regular Scraping (requests + BS4)''),
         reports := map (\<lambda>(u, pg). make_report u pg) (successes (direct_get e) ARTICLE_URLS),
         failed_urls := failures (direct_get e) ARTICLE_URLS,
         collected_count := length (successes (direct_get e) ARTICLE_URLS)\<rparr>)"
  using assms
  by (simp add: phase1_data_collection_def phase1_primary_def fallback_loop_eq
      phase1_initial_def)

lemma phase1_primary_ok:
  assumes "use_zenrows e" and "first_error (zenrows_get e) ARTICLE_URLS = None"
  shows "phase1_data_collection e =
     (map (\<lambda>(u, pg). make_raw_report u pg) (successes (zenrows_get e) ARTICLE_URLS),
      phase1_initial
        \<lparr>collection_method := (str ''ZenRows API''),
         reports := map (\<lambda>(u, pg). make_report u pg) (successes (zenrows_get e) ARTICLE_URLS),
         collected_count := length (successes (zenrows_get e) ARTICLE_URLS)\<rparr>)"
  using assms
  by (simp add: phase1_data_collection_def phase1_primary_def zenrows_loop_eq
      served_prefix_all phase1_initial_def)

lemma phase1_primary_failed:
  assumes "use_zenrows e" and "first_error (zenrows_get e) ARTICLE_URLS = Some err"
  shows "phase1_data_collection e =
     (map (\<lambda>(u, pg). make_raw_report u pg) (successes (direct_get e) ARTICLE_URLS),
      phase1_initial
        \<lparr>collection_method := (str ''Regular Scraping (requests + BS4)''),
         reports :=
           map (\<lambda>(u, pg). make_report u pg)
             (successes (zenrows_get e) (served_prefix (zenrows_get e) ARTICLE_URLS))
           @ map (\<lambda>(u, pg). make_report u pg) (successes (direct_get e) ARTICLE_URLS),
         failed_urls := failures (direct_get e) ARTICLE_URLS,
         p1_error := Some (str_of_error err),
         collected_count := length (successes (direct_get e) ARTICLE_URLS)\<rparr>)"
  using assms
  by (simp add: phase1_data_collection_def phase1_primary_def zenrows_loop_eq
      fallback_loop_eq phase1_initial_def)

lemma phase1_cases:
  obtains "\<not> use_zenrows e"
  | "use_zenrows e" and "first_error (zenrows_get e) ARTICLE_URLS = None"
  | err where "use_zenrows e" and "first_error (zenrows_get e) ARTICLE_URLS = Some err"
  by (cases "use_zenrows e"; cases "first_error (zenrows_get e) ARTICLE_URLS") auto

lemma phase1_shape:
  "\<exists>ps qs. fst (phase1_data_collection e) = map (\<lambda>(u, pg). make_raw_report u pg) ps
     \<and> reports (snd (phase1_data_collection e)) = map (\<lambda>(u, pg). make_report u pg) qs"
proof (cases e rule: phase1_cases)
  case 1
  then show ?thesis by (simp add: phase1_no_key) blast
next
  case 2
  then show ?thesis by (simp add: phase1_primary_ok) blast
next
  case (3 err)
  then show ?thesis
    by (simp add: phase1_primary_failed flip: map_append) blast
qed

lemma phase1_collected_count:
  "collected_count (snd (phase1_data_collection e)) = length (fst (phase1_data_collection e))"
  by (cases e rule: phase1_cases)
     (simp_all add: phase1_no_key phase1_primary_ok phase1_primary_failed)

subsection \<open>Phase 1: the collector\<close>

text \<open>
  Facts about \<open>flaky_env\<close>, evaluated once and used below.
\<close>

lemmas flaky_defs = flaky_env_def offline_env_def ARTICLE_URLS_def

lemma flaky_use: "use_zenrows flaky_env"
  by (simp add: use_zenrows_def flaky_defs strip_defs str_def)

lemma flaky_first_error:
  "first_error (zenrows_get flaky_env) ARTICLE_URLS = Some (PyException (str ''422 Unprocessable''))"
  by (simp add: flaky_defs)

lemma flaky_second_source:
  "hd (tl ARTICLE_URLS) \<in> set ARTICLE_URLS
   \<and> zenrows_get flaky_env (hd (tl ARTICLE_URLS)) = Inl (PyException (str ''422 Unprocessable''))"
  by (simp add: flaky_defs)

lemma flaky_primary_served:
  "successes (zenrows_get flaky_env) (served_prefix (zenrows_get flaky_env) ARTICLE_URLS)
     = [(hd ARTICLE_URLS, sample_page)]"
  by (simp add: flaky_defs successes_def served_prefix_def)

lemma flaky_direct_first:
  "(hd ARTICLE_URLS, sample_page) \<in> set (successes (direct_get flaky_env) ARTICLE_URLS)"
  by (simp add: flaky_defs successes_def)

lemma flaky_direct_length: "length (successes (direct_get flaky_env) ARTICLE_URLS) = 14"
  by (simp add: flaky_defs successes_def)

lemma flaky_direct_failures:
  "failures (direct_get flaky_env) ARTICLE_URLS = [(hd (tl ARTICLE_URLS), (str ''403 Forbidden''))]"
  by (simp add: flaky_defs failures_def)

lemmas flaky_phase1 = phase1_primary_failed [OF flaky_use flaky_first_error]

lemma rp_url_make_report [simp]: "rp_url (make_report u pg) = u"
  by (simp add: make_report_def)

lemma rp_url_case_make_report: "rp_url (case x of (u, pg) \<Rightarrow> make_report u pg) = fst x"
  by (cases x) simp

text \<open>
  Claim C3. When the ZenRows key is configured and the primary path raises on some source,
  the sequence the collector returns is exactly what the secondary path collects over the
  whole of \<open>ARTICLE_URLS\<close>: no document of the primary pass is kept. In the secondary
  path every failing source is listed in \<open>failed_urls\<close> with its message and every other
  source is collected, also after a failure, so each of the sources ends in exactly one of
  the two lists.
\<close>

theorem primary_failure_falls_back:
  assumes "use_zenrows e" and "url \<in> set ARTICLE_URLS" and "zenrows_get e url = Inl err"
  shows "fst (phase1_data_collection e) =
           map (\<lambda>(u, pg). make_raw_report u pg) (successes (direct_get e) ARTICLE_URLS)
     \<and> failed_urls (snd (phase1_data_collection e)) = failures (direct_get e) ARTICLE_URLS
     \<and> collection_method (snd (phase1_data_collection e)) = (str ''Regular Scraping (requests + BS4)'')
     \<and> length (fst (phase1_data_collection e))
         + length (failed_urls (snd (phase1_data_collection e))) = length ARTICLE_URLS"
proof -
  have "\<exists>x\<in>set ARTICLE_URLS. isl (zenrows_get e x)"
    using assms(2,3) by force
  then obtain err' where "first_error (zenrows_get e) ARTICLE_URLS = Some err'"
    using first_error_Some_iff [of "zenrows_get e" ARTICLE_URLS] by blast
  then show ?thesis
    using assms(1) by (simp add: phase1_primary_failed length_successes_failures)
qed

theorem primary_failure_falls_back_witness:
  "use_zenrows flaky_env
   \<and> hd (tl ARTICLE_URLS) \<in> set ARTICLE_URLS
   \<and> zenrows_get flaky_env (hd (tl ARTICLE_URLS)) = Inl (PyException (str ''422 Unprocessable''))
   \<and> length (fst (phase1_data_collection flaky_env)) = 14
   \<and> failed_urls (snd (phase1_data_collection flaky_env))
       = [(hd (tl ARTICLE_URLS), (str ''403 Forbidden''))]"
proof -
  have u: "use_zenrows flaky_env" by (rule flaky_use)
  have m: "hd (tl ARTICLE_URLS) \<in> set ARTICLE_URLS"
    and z: "zenrows_get flaky_env (hd (tl ARTICLE_URLS)) = Inl (PyException (str ''422 Unprocessable''))"
    using flaky_second_source by simp_all
  from primary_failure_falls_back [OF u m z] u m z show ?thesis
    by (simp add: flaky_direct_length flaky_direct_failures)
qed

text \<open>
  Claim C6. The content of every raw document the collector returns has at most 10,000
  characters and every logged preview at most 503; both paths build them with
  \<open>make_raw_report\<close> and \<open>make_report\<close>, for which the preview is the content when
  that has at most 500 characters, and its first 500 characters followed by three dots
  otherwise.
\<close>

theorem content_bounds:
  "(\<forall>r\<in>set (fst (phase1_data_collection e)). length (rr_content r) \<le> 10000)
   \<and> (\<forall>p\<in>set (reports (snd (phase1_data_collection e))). length (rp_content_preview p) \<le> 503)
   \<and> length (rr_content (make_raw_report url pg)) \<le> 10000
   \<and> length (rp_content_preview (make_report url pg)) \<le> 503
   \<and> rp_content_preview (make_report url pg) =
       (if length (rr_content (make_raw_report url pg)) \<le> 500
        then rr_content (make_raw_report url pg)
        else take 500 (rr_content (make_raw_report url pg)) @ (str ''...''))"
proof -
  obtain ps qs where
    raws: "fst (phase1_data_collection e) = map (\<lambda>(u, pg). make_raw_report u pg) ps" and
    reps: "reports (snd (phase1_data_collection e)) = map (\<lambda>(u, pg). make_report u pg) qs"
    using phase1_shape by blast
  have a: "\<forall>r\<in>set (fst (phase1_data_collection e)). length (rr_content r) \<le> 10000"
    unfolding raws by (auto simp: make_raw_report_def length_page_content)
  have b: "\<forall>p\<in>set (reports (snd (phase1_data_collection e))). length (rp_content_preview p) \<le> 503"
    unfolding reps by (auto simp: make_report_def length_content_preview)
  have c: "length (rr_content (make_raw_report url pg)) \<le> 10000"
    by (simp add: make_raw_report_def length_page_content)
  have d: "length (rp_content_preview (make_report url pg)) \<le> 503"
    by (simp add: make_report_def length_content_preview)
  have f: "rp_content_preview (make_report url pg) =
       (if length (rr_content (make_raw_report url pg)) \<le> 500
        then rr_content (make_raw_report url pg)
        else take 500 (rr_content (make_raw_report url pg)) @ (str ''...''))"
    by (simp add: make_report_def make_raw_report_def content_preview_def)
  from a b c d f show ?thesis by blast
qed

theorem content_bounds_witness:
  "make_raw_report (hd ARTICLE_URLS) sample_page \<in> set (fst (phase1_data_collection flaky_env))
   \<and> make_report (hd ARTICLE_URLS) sample_page
       \<in> set (reports (snd (phase1_data_collection flaky_env)))
   \<and> length (rr_content (make_raw_report (hd ARTICLE_URLS) sample_page)) \<le> 10000
   \<and> length (rp_content_preview (make_report (hd ARTICLE_URLS) sample_page)) \<le> 503
   \<and> rp_content_preview (make_report (hd ARTICLE_URLS) sample_page) = (str ''CloudyLoader was used.'')"
proof -
  have m1: "make_raw_report (hd ARTICLE_URLS) sample_page
      \<in> set (fst (phase1_data_collection flaky_env))"
    using flaky_direct_first by (force simp: flaky_phase1)
  have m2: "make_report (hd ARTICLE_URLS) sample_page
      \<in> set (reports (snd (phase1_data_collection flaky_env)))"
    by (simp add: flaky_phase1 flaky_primary_served)
  have v: "rr_content (make_raw_report (hd ARTICLE_URLS) sample_page) = (str ''CloudyLoader was used.'')"
    by (simp add: make_raw_report_def page_content_def sample_page_def)
  from content_bounds [of flaky_env "hd ARTICLE_URLS" sample_page] m1 m2 v show ?thesis
    by simp
qed

text \<open>
  Claim C9. \<open>collected_count\<close> is always the length of the returned sequence. When the
  primary pass fails, the \<open>reports\<close> list of the log is not cleared: it holds the entries
  of the sources served before the failure, followed by the entries of the fallback pass.
  In \<open>flaky_env\<close> it is strictly longer than \<open>collected_count\<close> and holds two entries
  for one URL.
\<close>

theorem reports_not_cleared:
  "collected_count (snd (phase1_data_collection e)) = length (fst (phase1_data_collection e))
   \<and> (use_zenrows e \<and> first_error (zenrows_get e) ARTICLE_URLS \<noteq> None \<longrightarrow>
        reports (snd (phase1_data_collection e)) =
          map (\<lambda>(u, pg). make_report u pg)
            (successes (zenrows_get e) (served_prefix (zenrows_get e) ARTICLE_URLS))
          @ map (\<lambda>(u, pg). make_report u pg) (successes (direct_get e) ARTICLE_URLS))
   \<and> collected_count (snd (phase1_data_collection flaky_env))
       < length (reports (snd (phase1_data_collection flaky_env)))
   \<and> \<not> distinct (map rp_url (reports (snd (phase1_data_collection flaky_env))))"
proof -
  have a: "collected_count (snd (phase1_data_collection e)) = length (fst (phase1_data_collection e))"
    by (rule phase1_collected_count)
  have b: "use_zenrows e \<and> first_error (zenrows_get e) ARTICLE_URLS \<noteq> None \<longrightarrow>
        reports (snd (phase1_data_collection e)) =
          map (\<lambda>(u, pg). make_report u pg)
            (successes (zenrows_get e) (served_prefix (zenrows_get e) ARTICLE_URLS))
          @ map (\<lambda>(u, pg). make_report u pg) (successes (direct_get e) ARTICLE_URLS)"
    by (auto simp: phase1_primary_failed)
  have c: "collected_count (snd (phase1_data_collection flaky_env))
       < length (reports (snd (phase1_data_collection flaky_env)))"
    by (simp add: flaky_phase1 flaky_primary_served flaky_direct_length)
  have "hd ARTICLE_URLS \<in> fst ` set (successes (direct_get flaky_env) ARTICLE_URLS)"
    using flaky_direct_first by force
  then have d: "\<not> distinct (map rp_url (reports (snd (phase1_data_collection flaky_env))))"
    by (simp add: flaky_phase1 flaky_primary_served comp_def rp_url_case_make_report)
  from a b c d show ?thesis by blast
qed

theorem reports_not_cleared_witness:
  "use_zenrows flaky_env \<and> first_error (zenrows_get flaky_env) ARTICLE_URLS \<noteq> None
   \<and> length (reports (snd (phase1_data_collection flaky_env))) = 15
   \<and> collected_count (snd (phase1_data_collection flaky_env)) = 14
   \<and> length (fst (phase1_data_collection flaky_env)) = 14"
proof -
  have h: "use_zenrows flaky_env \<and> first_error (zenrows_get flaky_env) ARTICLE_URLS \<noteq> None"
    by (simp add: flaky_use flaky_first_error)
  from reports_not_cleared [of flaky_env] h show ?thesis
    by (simp add: flaky_primary_served flaky_direct_length flaky_phase1)
qed

subsection \<open>Phase 2: the extractor\<close>

lemma isl_extract_document:
  "isl (extract_document e rep) \<longleftrightarrow>
     isl (generate_content e (EXTRACTION_PROMPT @ rr_content rep))
     \<or> (\<exists>text err. generate_content e (EXTRACTION_PROMPT @ rr_content rep) = Inr text
            \<and> json_loads e (strip text) = LoadsError err)"
  by (auto simp: extract_document_def split: sum.splits loads_result.splits)

lemma first_error_extract_None:
  "first_error (extract_document e) raws = None
     \<longleftrightarrow> (\<forall>r\<in>set raws. \<not> isl (extract_document e r))"
  by (rule first_error_None_iff)

lemma successes_all_map:
  "first_error f xs = None \<Longrightarrow> map (\<lambda>p. Inr (snd p)) (successes f xs) = map f xs"
  by (induction xs) (auto simp: successes_Cons split: sum.splits)

lemma mock_loop_MOCK:
  "mock_loop 0 MOCK_THREAT_INTEL_LIST [] logged =
     (map (\<lambda>i. mock_document i (MOCK_THREAT_INTEL_LIST ! i)) [0..<15],
      logged @ map (\<lambda>i. mock_document i (MOCK_THREAT_INTEL_LIST ! i)) [0..<15])"
  by (simp add: mock_loop_eq length_MOCK del: upt_Suc)

lemma phase2_primary_ok:
  assumes "USE_LLM e" and "raws \<noteq> []" and "first_error (extract_document e) raws = None"
  shows "phase2_information_extraction e raws =
     (map snd (successes (extract_document e) raws),
      (phase2_initial e raws)
        \<lparr>used_llm := True,
         p2_documents := map snd (successes (extract_document e) raws),
         document_count := length raws\<rparr>)"
proof -
  have "length (successes (extract_document e) raws) = length raws"
    using assms(3) by (rule length_successes_all)
  moreover from this assms(2) have "successes (extract_document e) raws \<noteq> []"
    by auto
  ultimately show ?thesis
    using assms
    by (simp add: phase2_information_extraction_def phase2_try_def extract_loop_eq
        served_prefix_all phase2_initial_def)
qed

lemma phase2_no_primary:
  assumes "\<not> USE_LLM e \<or> raws = []"
  shows "phase2_information_extraction e raws =
     (map (\<lambda>i. mock_document i (MOCK_THREAT_INTEL_LIST ! i)) [0..<15],
      (phase2_initial e raws)
        \<lparr>used_mock := True,
         p2_documents := map (\<lambda>i. mock_document i (MOCK_THREAT_INTEL_LIST ! i)) [0..<15],
         document_count := 15\<rparr>)"
  using assms
  by (auto simp: phase2_information_extraction_def phase2_try_def mock_loop_MOCK
      phase2_initial_def simp del: upt_Suc)

lemma phase2_primary_failed:
  assumes "USE_LLM e" and "raws \<noteq> []" and "first_error (extract_document e) raws = Some err"
  shows "phase2_information_extraction e raws =
     (map (\<lambda>i. mock_document i (MOCK_THREAT_INTEL_LIST ! i)) [0..<15],
      (phase2_initial e raws)
        \<lparr>used_llm := True, used_mock := True,
         p2_documents :=
           map snd (successes (extract_document e) (served_prefix (extract_document e) raws))
           @ map (\<lambda>i. mock_document i (MOCK_THREAT_INTEL_LIST ! i)) [0..<15],
         p2_error := Some (str_of_error err),
         document_count := 15\<rparr>)"
  using assms
  by (simp add: phase2_information_extraction_def phase2_try_def extract_loop_eq
      mock_loop_MOCK phase2_initial_def del: upt_Suc)


text \<open>
  Facts about \<open>chatty_env\<close>, \<open>quota_env\<close> and \<open>deep_env\<close>, evaluated once and used
  below.
\<close>

lemma strip_sorry: "strip (str '' Sorry, no JSON. '') = str ''Sorry, no JSON.''"
  by (simp add: strip_defs str_def)

lemma chatty_use_llm: "USE_LLM chatty_env"
  by (simp add: chatty_env_def offline_env_def)

lemma chatty_generates:
  "generate_content chatty_env prompt = Inr (str '' Sorry, no JSON. '')
   \<and> json_loads chatty_env text = JSONDecodeError"
  by (simp add: chatty_env_def offline_env_def)

lemma chatty_extracts:
  "extract_document chatty_env rep =
     Inr \<lparr>doc_title = rr_title rep, doc_source = rr_url rep,
          threat_intelligence =
            JObj [(str ''raw'', JStr (str ''Sorry, no JSON.'')),
                  (str ''note'', JStr (str ''JSON parse failed''))]\<rparr>"
  by (simp add: extract_document_def chatty_generates strip_sorry)


lemma quota_fails_b:
  "generate_content quota_env (EXTRACTION_PROMPT @ rr_content report_b)
     = Inl (PyException (str ''429 quota exceeded''))"
  by (simp add: quota_env_def offline_env_def report_b_def)


lemma quota_extract_b: "isl (extract_document quota_env report_b)"
  by (simp add: isl_extract_document quota_fails_b)


lemma deep_use_llm: "USE_LLM deep_env"
  by (simp add: deep_env_def offline_env_def)

lemma deep_response:
  "generate_content deep_env prompt = Inr (replicate 2000 91)
   \<and> json_loads deep_env text = LoadsError (PyException (str ''maximum recursion depth exceeded''))"
  by (simp add: deep_env_def offline_env_def)

lemma deep_extract:
  "extract_document deep_env rep = Inl (PyException (str ''maximum recursion depth exceeded''))"
  by (simp add: extract_document_def deep_response)

lemma str_nat_1: "str_nat (Suc 0) = str ''1''"
  by (subst str_nat.simps) (simp add: digit_char_def str_def)

lemma phase2_mocks:
  assumes "\<not> USE_LLM e \<or> raws = [] \<or> (\<exists>r\<in>set raws. isl (extract_document e r))"
  shows "fst (phase2_information_extraction e raws) =
      map (\<lambda>i. mock_document i (MOCK_THREAT_INTEL_LIST ! i)) [0..<15]"
proof (cases "\<not> USE_LLM e \<or> raws = []")
  case True
  then show ?thesis by (simp add: phase2_no_primary del: upt_Suc)
next
  case False
  with assms have "first_error (extract_document e) raws \<noteq> None"
    by (simp add: first_error_extract_None)
  then obtain err where "first_error (extract_document e) raws = Some err"
    by blast
  with False show ?thesis by (simp add: phase2_primary_failed del: upt_Suc)
qed

text \<open>
  Claim C4, as amended. When the flag is set, the input is not empty and the extraction of
  no raw document raises, the extractor returns as many documents as it was given raw
  documents. On every trigger of the substitute path (flag off, empty input, or an
  extraction that raises) the partially extracted documents are dropped and 15 documents
  are returned, one per entry of the built-in dataset, with source "Simulated Feed" and
  title "Mock Threat Report N (Recent 2025)". The extraction of a raw document raises when
  the generation call raises or when \<^verbatim>\<open>json.loads\<close> raises an exception other than
  \<^verbatim>\<open>JSONDecodeError\<close>. The claim gives the title as "Mock Threat Report N"; the
  counterexample after the witness shows the title the code produces.
\<close>

theorem extractor_output_count:
  "(USE_LLM e \<and> raws \<noteq> [] \<and> (\<forall>r\<in>set raws. \<not> isl (extract_document e r))
     \<longrightarrow> length (fst (phase2_information_extraction e raws)) = length raws)
   \<and> (\<not> USE_LLM e \<or> raws = [] \<or> (\<exists>r\<in>set raws. isl (extract_document e r))
     \<longrightarrow> length (fst (phase2_information_extraction e raws)) = 15
        \<and> fst (phase2_information_extraction e raws) =
           map (\<lambda>i. \<lparr>doc_title = str ''Mock Threat Report '' @ str_nat (i + 1)
                                   @ str '' (Recent 2025)'',
                      doc_source = str ''Simulated Feed'',
                      threat_intelligence = MOCK_THREAT_INTEL_LIST ! i\<rparr>) [0..<15])
   \<and> (isl (extract_document e rep) \<longleftrightarrow>
        isl (generate_content e (EXTRACTION_PROMPT @ rr_content rep))
        \<or> (\<exists>text err. generate_content e (EXTRACTION_PROMPT @ rr_content rep) = Inr text
               \<and> json_loads e (strip text) = LoadsError err))"
proof (intro conjI impI)
  assume "USE_LLM e \<and> raws \<noteq> [] \<and> (\<forall>r\<in>set raws. \<not> isl (extract_document e r))"
  then have h: "USE_LLM e" "raws \<noteq> []" "first_error (extract_document e) raws = None"
    by (simp_all add: first_error_extract_None)
  show "length (fst (phase2_information_extraction e raws)) = length raws"
    by (simp add: phase2_primary_ok [OF h] length_successes_all [OF h(3)])
next
  assume h: "\<not> USE_LLM e \<or> raws = [] \<or> (\<exists>r\<in>set raws. isl (extract_document e r))"
  note m = phase2_mocks [OF h]
  show "length (fst (phase2_information_extraction e raws)) = 15"
    unfolding m by simp
  show "fst (phase2_information_extraction e raws) =
           map (\<lambda>i. \<lparr>doc_title = str ''Mock Threat Report '' @ str_nat (i + 1)
                                   @ str '' (Recent 2025)'',
                      doc_source = str ''Simulated Feed'',
                      threat_intelligence = MOCK_THREAT_INTEL_LIST ! i\<rparr>) [0..<15]"
    unfolding m by (simp add: mock_document_def del: upt_Suc)
next
  show "isl (extract_document e rep) \<longleftrightarrow>
        isl (generate_content e (EXTRACTION_PROMPT @ rr_content rep))
        \<or> (\<exists>text err. generate_content e (EXTRACTION_PROMPT @ rr_content rep) = Inr text
               \<and> json_loads e (strip text) = LoadsError err)"
    by (rule isl_extract_document)
qed

theorem extractor_output_count_witness:
  "USE_LLM chatty_env
   \<and> \<not> isl (extract_document chatty_env report_a)
   \<and> \<not> isl (extract_document chatty_env report_b)
   \<and> length (fst (phase2_information_extraction chatty_env [report_a, report_b])) = 2
   \<and> isl (extract_document quota_env report_b)
   \<and> length (fst (phase2_information_extraction quota_env [report_a, report_b])) = 15
   \<and> isl (extract_document deep_env report_a)
   \<and> length (fst (phase2_information_extraction deep_env [report_a])) = 15
   \<and> length (fst (phase2_information_extraction chatty_env [])) = 15"
proof -
  have d: "isl (extract_document deep_env report_a)"
    by (simp add: deep_extract)
  from extractor_output_count [of chatty_env "[report_a, report_b]"]
    extractor_output_count [of quota_env "[report_a, report_b]"]
    extractor_output_count [of deep_env "[report_a]"]
    extractor_output_count [of chatty_env "[]"]
    chatty_use_llm quota_extract_b d
  show ?thesis by (simp add: chatty_extracts)
qed

theorem mock_title_counterexample:
  "doc_title (hd (fst (phase2_information_extraction offline_env [])))
     = str ''Mock Threat Report 1 (Recent 2025)''
   \<and> doc_title (hd (fst (phase2_information_extraction offline_env [])))
     \<noteq> str ''Mock Threat Report 1''"
  by (simp add: phase2_no_primary upt_conv_Cons mock_document_def str_nat_1 str_def
      del: upt_Suc)

text \<open>
  Claim C5, as amended. A response on which \<^verbatim>\<open>json.loads\<close> raises
  \<^verbatim>\<open>JSONDecodeError\<close> does not drop the document: its \<open>threat_intelligence\<close> is the
  object with \<open>raw\<close> the stripped response and \<open>note\<close> "JSON parse failed". When the
  extraction of no raw document raises, the documents returned are the results of
  \<open>extract_document\<close> for the raw documents, one each and in order, whether or not a
  response parses. A response on which \<^verbatim>\<open>json.loads\<close> raises another exception is not
  wrapped: the exception leaves the loop, which by C4 replaces every document by the mock
  documents. The claim speaks of every response that does not parse and gives the note as
  "parse failed"; the counterexample after the witness shows the note the code writes, and
  a response that does not parse and is dropped with all other documents.
\<close>

theorem parse_failure_keeps_document:
  "(generate_content e (EXTRACTION_PROMPT @ rr_content rep) = Inr text
      \<and> json_loads e (strip text) = JSONDecodeError
     \<longrightarrow> extract_document e rep =
          Inr \<lparr>doc_title = rr_title rep, doc_source = rr_url rep,
               threat_intelligence =
                 JObj [(str ''raw'', JStr (strip text)),
                       (str ''note'', JStr (str ''JSON parse failed''))]\<rparr>)
   \<and> (USE_LLM e \<and> raws \<noteq> [] \<and> (\<forall>r\<in>set raws. \<not> isl (extract_document e r))
     \<longrightarrow> map Inr (fst (phase2_information_extraction e raws)) = map (extract_document e) raws)
   \<and> (generate_content e (EXTRACTION_PROMPT @ rr_content rep) = Inr text
      \<and> json_loads e (strip text) = LoadsError err
     \<longrightarrow> extract_document e rep = Inl err)"
proof (intro conjI impI)
  assume "generate_content e (EXTRACTION_PROMPT @ rr_content rep) = Inr text
      \<and> json_loads e (strip text) = JSONDecodeError"
  then show "extract_document e rep =
          Inr \<lparr>doc_title = rr_title rep, doc_source = rr_url rep,
               threat_intelligence =
                 JObj [(str ''raw'', JStr (strip text)),
                       (str ''note'', JStr (str ''JSON parse failed''))]\<rparr>"
    by (simp add: extract_document_def)
next
  assume h: "USE_LLM e \<and> raws \<noteq> [] \<and> (\<forall>r\<in>set raws. \<not> isl (extract_document e r))"
  then have ok: "first_error (extract_document e) raws = None"
    by (simp add: first_error_extract_None)
  with h have "fst (phase2_information_extraction e raws)
      = map snd (successes (extract_document e) raws)"
    by (simp add: phase2_primary_ok)
  then show "map Inr (fst (phase2_information_extraction e raws)) = map (extract_document e) raws"
    using successes_all_map [OF ok] by (simp add: comp_def)
next
  assume "generate_content e (EXTRACTION_PROMPT @ rr_content rep) = Inr text
      \<and> json_loads e (strip text) = LoadsError err"
  then show "extract_document e rep = Inl err"
    by (simp add: extract_document_def)
qed

theorem parse_failure_keeps_document_witness:
  "generate_content chatty_env (EXTRACTION_PROMPT @ rr_content report_a)
     = Inr (str '' Sorry, no JSON. '')
   \<and> json_loads chatty_env (strip (str '' Sorry, no JSON. '')) = JSONDecodeError
   \<and> extract_document chatty_env report_a =
        Inr \<lparr>doc_title = str ''A'', doc_source = str ''https://a.example/1'',
             threat_intelligence =
               JObj [(str ''raw'', JStr (str ''Sorry, no JSON.'')),
                     (str ''note'', JStr (str ''JSON parse failed''))]\<rparr>
   \<and> length (fst (phase2_information_extraction chatty_env [report_a, report_b])) = 2
   \<and> generate_content deep_env (EXTRACTION_PROMPT @ rr_content report_a)
       = Inr (replicate 2000 91)
   \<and> json_loads deep_env (strip (replicate 2000 91))
       = LoadsError (PyException (str ''maximum recursion depth exceeded''))
   \<and> extract_document deep_env report_a
       = Inl (PyException (str ''maximum recursion depth exceeded''))"
proof -
  have "map Inr (fst (phase2_information_extraction chatty_env [report_a, report_b]))
      = map (extract_document chatty_env) [report_a, report_b]"
    using parse_failure_keeps_document [of chatty_env report_a "[]" "[report_a, report_b]"]
      chatty_use_llm
    by (simp add: chatty_extracts)
  from arg_cong [OF this, of length]
  have n: "length (fst (phase2_information_extraction chatty_env [report_a, report_b])) = 2"
    by simp
  from parse_failure_keeps_document [of chatty_env report_a "str '' Sorry, no JSON. ''" "[]"]
    parse_failure_keeps_document [of deep_env report_a "replicate 2000 91" "[]"
      "PyException (str ''maximum recursion depth exceeded'')"]
    chatty_generates deep_response n
  show ?thesis by (simp add: strip_sorry report_a_def)
qed

theorem parse_note_counterexample:
  "threat_intelligence (hd (fst (phase2_information_extraction chatty_env [report_a])))
     = JObj [(str ''raw'', JStr (str ''Sorry, no JSON.'')),
             (str ''note'', JStr (str ''JSON parse failed''))]
   \<and> threat_intelligence (hd (fst (phase2_information_extraction chatty_env [report_a])))
     \<noteq> JObj [(str ''raw'', JStr (str ''Sorry, no JSON.'')),
             (str ''note'', JStr (str ''parse failed''))]
   \<and> json_loads deep_env (strip (replicate 2000 91))
       = LoadsError (PyException (str ''maximum recursion depth exceeded''))
   \<and> length (fst (phase2_information_extraction deep_env [report_a])) = 15
   \<and> doc_source (hd (fst (phase2_information_extraction deep_env [report_a])))
       = str ''Simulated Feed''"
proof -
  have ok: "first_error (extract_document chatty_env) [report_a] = None"
    by (simp add: chatty_extracts)
  have a: "fst (phase2_information_extraction chatty_env [report_a])
      = [\<lparr>doc_title = rr_title report_a, doc_source = rr_url report_a,
          threat_intelligence =
            JObj [(str ''raw'', JStr (str ''Sorry, no JSON.'')),
                  (str ''note'', JStr (str ''JSON parse failed''))]\<rparr>]"
    by (simp add: phase2_primary_ok [OF chatty_use_llm _ ok] successes_Cons chatty_extracts)
  have "\<exists>r\<in>set [report_a]. isl (extract_document deep_env r)"
    by (simp add: deep_extract)
  then have d: "fst (phase2_information_extraction deep_env [report_a]) =
      map (\<lambda>i. mock_document i (MOCK_THREAT_INTEL_LIST ! i)) [0..<15]"
    by (intro phase2_mocks) blast
  show ?thesis
    unfolding a d by (simp add: deep_response upt_conv_Cons mock_document_def del: upt_Suc)
qed



subsection \<open>Phase 4: the retriever\<close>

lemma strip_charon:
  "strip (str '' Charon is a ransomware group. '') = str ''Charon is a ransomware group.''"
  by (simp add: strip_defs str_def)

lemma rag_try_online:
  "rag_try online_env (Some sample_collection) (Some (EmbeddingModel (str ''all-MiniLM-L6-v2'')))
       (str ''who is Charon?'') = Inr (str ''Charon is a ransomware group.'')"
  by (simp add: rag_try_def online_env_def offline_env_def sample_collection_def strip_charon)

lemma rag_try_offline:
  "rag_try offline_env None None (str ''Recent activities of APT31?'') = Inl (PyException (str ''No KB''))"
  by (simp add: rag_try_def)

lemma lower_apt31:
  "lower db (str ''Recent activities of APT31?'') = str ''recent activities of apt31?''"
  by (simp add: lower_def lower_char_def str_def)

lemma lower_apt31_blank:
  "lower db (str ''recent activities of apt31? '') = str ''recent activities of apt31? ''
   \<and> lower db (strip (str ''recent activities of apt31? '')) = str ''recent activities of apt31?''"
  by (simp add: lower_def lower_char_def strip_defs str_def)

lemma table_apt31:
  "map_of PREDEFINED_QUESTIONS (str ''recent activities of apt31?'')
     = Some (snd (PREDEFINED_QUESTIONS ! 3))
   \<and> map_of PREDEFINED_QUESTIONS (str ''recent activities of apt31? '') = None
   \<and> snd (PREDEFINED_QUESTIONS ! 3) \<noteq> str ''Insufficient data.''"
  by (simp add: PREDEFINED_QUESTIONS_def)

text \<open>
  Claim C1, as amended. \<^verbatim>\<open>rag_query\<close> never raises. When tier 1 fails, it returns the
  static table's answer for the lower-cased question when that is a key, and
  "Insufficient data." otherwise; the retriever does not trim the question (the session
  trims its input before the call). When tier 1 succeeds its answer is returned and the
  table plays no part. Tier 1 fails whenever a handle is absent, the flag is off, or the
  embedding, the index query or the generation raises. The counterexample after the
  witness is a question with a trailing blank whose trimmed form is a key.
\<close>

theorem retriever_fallback:
  "(\<exists>answer. snd (rag_query e coll model q) = Inr answer)
   \<and> (\<forall>err. rag_try e coll model q = Inl err \<longrightarrow>
         snd (rag_query e coll model q) =
           Inr (case map_of PREDEFINED_QUESTIONS (lower (unicode e) q) of
                  Some answer \<Rightarrow> answer
                | None \<Rightarrow> (str ''Insufficient data.'')))
   \<and> (\<forall>answer. rag_try e coll model q = Inr answer \<longrightarrow>
         snd (rag_query e coll model q) = Inr answer)
   \<and> (coll = None \<or> model = None \<or> \<not> USE_LLM e
        \<or> (\<forall>m. isl (encode e m q))
        \<or> (\<forall>c v. isl (collection_query e c v 3))
        \<or> (\<forall>prompt. isl (generate_content e prompt))
       \<longrightarrow> isl (rag_try e coll model q))"
proof (intro conjI allI impI)
  show "\<exists>answer. snd (rag_query e coll model q) = Inr answer"
    by (simp add: rag_query_def split: sum.splits)
next
  fix err
  assume "rag_try e coll model q = Inl err"
  then show "snd (rag_query e coll model q) =
           Inr (case map_of PREDEFINED_QUESTIONS (lower (unicode e) q) of
                  Some answer \<Rightarrow> answer
                | None \<Rightarrow> (str ''Insufficient data.''))"
    by (simp add: rag_query_def)
next
  fix answer
  assume "rag_try e coll model q = Inr answer"
  then show "snd (rag_query e coll model q) = Inr answer"
    by (simp add: rag_query_def)
next
  assume "coll = None \<or> model = None \<or> \<not> USE_LLM e
        \<or> (\<forall>m. isl (encode e m q))
        \<or> (\<forall>c v. isl (collection_query e c v 3))
        \<or> (\<forall>prompt. isl (generate_content e prompt))"
  then show "isl (rag_try e coll model q)"
    by (auto simp: rag_try_def Let_def split: option.splits sum.splits list.splits)
       (metis sum.disc(2))+
qed

theorem retriever_fallback_witness:
  "rag_try offline_env None None (str ''Recent activities of APT31?'') = Inl (PyException (str ''No KB''))
   \<and> snd (rag_query offline_env None None (str ''Recent activities of APT31?''))
       = Inr (snd (PREDEFINED_QUESTIONS ! 3))
   \<and> rag_try online_env (Some sample_collection) (Some (EmbeddingModel (str ''all-MiniLM-L6-v2'')))
       (str ''who is Charon?'') = Inr (str ''Charon is a ransomware group.'')
   \<and> snd (rag_query online_env (Some sample_collection)
            (Some (EmbeddingModel (str ''all-MiniLM-L6-v2''))) (str ''who is Charon?''))
       = Inr (str ''Charon is a ransomware group.'')
   \<and> isl (rag_try online_env None (Some (EmbeddingModel (str ''all-MiniLM-L6-v2''))) (str ''who is Charon?''))"
proof -
  note a = retriever_fallback [of offline_env None None "(str ''Recent activities of APT31?'')"]
  note b = retriever_fallback [of online_env "Some sample_collection"
      "Some (EmbeddingModel (str ''all-MiniLM-L6-v2''))" "(str ''who is Charon?'')"]
  note c = retriever_fallback [of online_env None
      "Some (EmbeddingModel (str ''all-MiniLM-L6-v2''))" "(str ''who is Charon?'')"]
  from a b c rag_try_offline rag_try_online show ?thesis
    by (simp add: lower_apt31 table_apt31)
qed

theorem retriever_trim_counterexample:
  "rag_try offline_env None None (str ''recent activities of apt31? '') = Inl (PyException (str ''No KB''))
   \<and> map_of PREDEFINED_QUESTIONS
         (lower (unicode offline_env) (strip (str ''recent activities of apt31? ''))) \<noteq> None
   \<and> snd (rag_query offline_env None None (str ''recent activities of apt31? ''))
       = Inr (str ''Insufficient data.'')
   \<and> map_of PREDEFINED_QUESTIONS
         (lower (unicode offline_env) (strip (str ''recent activities of apt31? '')))
       \<noteq> Some (str ''Insufficient data.'')"
  using table_apt31 by (simp add: rag_query_def rag_try_def lower_apt31_blank)

subsection \<open>Phase 5: the session\<close>

lemma table_no_keyword:
  "map_of PREDEFINED_QUESTIONS (str ''exit'') = None
   \<and> map_of PREDEFINED_QUESTIONS (str ''quit'') = None"
  by (simp add: PREDEFINED_QUESTIONS_def)

lemma canned_not_keyword:
  "map_of PREDEFINED_QUESTIONS s = Some canned \<Longrightarrow> s \<notin> set [str ''exit'', str ''quit'']"
  using table_no_keyword by auto

lemma cli_loop_input_error:
  "input_line e i = Inl err \<Longrightarrow> cli_loop e rag i d out = Some (Some err, d, out)"
  by (subst cli_loop.simps) simp

lemma cli_loop_exit:
  "input_line e i = Inr line
     \<Longrightarrow> lower (unicode e) (strip line) \<in> set [str ''exit'', str ''quit'']
     \<Longrightarrow> cli_loop e rag i d out =
           Some (None, d\<lparr>status := str ''completed''\<rparr>, out @ [str ''Session ended.''])"
  by (subst cli_loop.simps) (simp add: Let_def)

lemma cli_loop_canned:
  assumes "input_line e i = Inr line"
    and "map_of PREDEFINED_QUESTIONS (lower (unicode e) (strip line)) = Some canned"
  shows "cli_loop e rag i d out =
           cli_loop e rag (i + 1) (d\<lparr>queries := queries d @ [strip line]\<rparr>)
             (out @ [str ''\<newline>'' @ canned @ str ''\<newline>''])"
  using assms canned_not_keyword [OF assms(2)]
  by (subst cli_loop.simps) (simp add: Let_def)


text \<open>
  A run of inputs that are keys of the table, given with their canned answers, from any
  state of the loop: the state after it.
\<close>

lemma cli_loop_canned_run:
  assumes "\<forall>j<length lcs. input_line e (i + j) = Inr (fst (lcs ! j))
      \<and> map_of PREDEFINED_QUESTIONS (lower (unicode e) (strip (fst (lcs ! j))))
          = Some (snd (lcs ! j))"
  shows "cli_loop e rag i d out =
           cli_loop e rag (i + length lcs)
             (d\<lparr>queries := queries d @ map (\<lambda>lc. strip (fst lc)) lcs\<rparr>)
             (out @ map (\<lambda>lc. str ''\<newline>'' @ snd lc @ str ''\<newline>'') lcs)"
  using assms
proof (induction lcs arbitrary: i d out)
  case Nil
  show ?case by simp
next
  case (Cons lc lcs)
  from Cons.prems have l: "input_line e i = Inr (fst lc)"
    "map_of PREDEFINED_QUESTIONS (lower (unicode e) (strip (fst lc))) = Some (snd lc)"
    by force+
  have a: "\<forall>j<length lcs. input_line e (Suc i + j) = Inr (fst (lcs ! j))
      \<and> map_of PREDEFINED_QUESTIONS (lower (unicode e) (strip (fst (lcs ! j))))
          = Some (snd (lcs ! j))"
  proof (intro allI impI)
    fix j
    assume "j < length lcs"
    then have "Suc j < length (lc # lcs)"
      by simp
    with Cons.prems show "input_line e (Suc i + j) = Inr (fst (lcs ! j))
      \<and> map_of PREDEFINED_QUESTIONS (lower (unicode e) (strip (fst (lcs ! j))))
          = Some (snd (lcs ! j))"
      by (metis add_Suc_shift nth_Cons_Suc)
  qed
  let ?d = "d\<lparr>queries := queries d @ [strip (fst lc)]\<rparr>"
  let ?out = "out @ [str ''\<newline>'' @ snd lc @ str ''\<newline>'']"
  have "cli_loop e rag i d out = cli_loop e rag (Suc i) ?d ?out"
    using cli_loop_canned [OF l] by simp
  also have "\<dots> = cli_loop e rag (Suc i + length lcs)
             (?d\<lparr>queries := queries ?d @ map (\<lambda>lc. strip (fst lc)) lcs\<rparr>)
             (?out @ map (\<lambda>lc. str ''\<newline>'' @ snd lc @ str ''\<newline>'') lcs)"
    by (rule Cons.IH [OF a])
  finally show ?case by simp
qed





text \<open>
  Facts about the session environments, evaluated once and used below.
\<close>

lemma session_lines:
  "input_line canned_session_env 0 = Inr (str ''  Recent activities of APT31?  '')
   \<and> input_line canned_session_env 1 = Inr (str ''EXIT'')
   \<and> input_line eof_session_env 0 = Inr (str ''who is Charon?'')
   \<and> input_line eof_session_env 1 = Inl (PyException (str ''EOF when reading a line''))
   \<and> input_line nbsp_session_env 0 = Inr (str ''Quit'' @ [160])
   \<and> input_line readonly_env 0 = Inr (str ''EXIT'')"
  by (simp add: canned_session_env_def eof_session_env_def nbsp_session_env_def
      readonly_env_def offline_env_def)


lemma stripped_lines:
  "strip (str ''  Recent activities of APT31?  '') = str ''Recent activities of APT31?''
   \<and> strip (str ''EXIT'') = str ''EXIT''
   \<and> strip (str ''who is Charon?'') = str ''who is Charon?''
   \<and> strip (str ''Quit'' @ [160]) = str ''Quit''"
  by (simp add: strip_defs str_def)

lemma lowered_lines:
  "lower db (str ''EXIT'') = str ''exit''
   \<and> lower db (str ''who is Charon?'') = str ''who is charon?''
   \<and> lower db (str ''Quit'') = str ''quit''"
  by (simp add: lower_def lower_char_def str_def)

lemmas normalized_lines = stripped_lines lowered_lines lower_apt31

lemma run_filename_5: "run_filename 5 = str ''CyberX #5.json''"
  by (simp add: run_filename_def str_int_def str_nat.simps digit_char_def str_def)

text \<open>
  Claim C2. From any state of the loop, a run of inputs whose stripped, lower-cased forms
  are keys of the static table is handled without the retriever: each stripped input is
  appended to the logged queries, each canned answer is printed between two newlines, and
  nothing else is printed or logged. When the run is followed by a termination keyword the
  session ends with exactly these queries, these lines and "Session ended.", with status
  "completed"; when it is followed by an exception of \<^verbatim>\<open>input\<close> the session ends with
  that exception and the same queries and lines. The retriever function does not occur in
  these results: they are the same for every retriever, also one that always raises. No key
  of the table is a termination keyword.
\<close>

theorem session_bypasses_retriever:
  assumes "\<forall>j<length lcs. input_line e (i + j) = Inr (fst (lcs ! j))
      \<and> map_of PREDEFINED_QUESTIONS (lower (unicode e) (strip (fst (lcs ! j))))
          = Some (snd (lcs ! j))"
  shows "cli_loop e rag i d out =
           cli_loop e rag (i + length lcs)
             (d\<lparr>queries := queries d @ map (\<lambda>lc. strip (fst lc)) lcs\<rparr>)
             (out @ map (\<lambda>lc. str ''\<newline>'' @ snd lc @ str ''\<newline>'') lcs)
     \<and> (\<forall>line. input_line e (i + length lcs) = Inr line
             \<and> lower (unicode e) (strip line) \<in> set [str ''exit'', str ''quit'']
           \<longrightarrow> cli_loop e rag i d out =
                 Some (None,
                       d\<lparr>queries := queries d @ map (\<lambda>lc. strip (fst lc)) lcs,
                         status := str ''completed''\<rparr>,
                       out @ map (\<lambda>lc. str ''\<newline>'' @ snd lc @ str ''\<newline>'') lcs
                         @ [str ''Session ended.'']))
     \<and> (\<forall>err. input_line e (i + length lcs) = Inl err
           \<longrightarrow> cli_loop e rag i d out =
                 Some (Some err,
                       d\<lparr>queries := queries d @ map (\<lambda>lc. strip (fst lc)) lcs\<rparr>,
                       out @ map (\<lambda>lc. str ''\<newline>'' @ snd lc @ str ''\<newline>'') lcs))
     \<and> (\<forall>lc\<in>set lcs.
           lower (unicode e) (strip (fst lc)) \<notin> set [str ''exit'', str ''quit''])"
proof (intro conjI allI impI ballI)
  show run: "cli_loop e rag i d out =
           cli_loop e rag (i + length lcs)
             (d\<lparr>queries := queries d @ map (\<lambda>lc. strip (fst lc)) lcs\<rparr>)
             (out @ map (\<lambda>lc. str ''\<newline>'' @ snd lc @ str ''\<newline>'') lcs)"
    by (rule cli_loop_canned_run [OF assms])
  {
    fix line
    assume "input_line e (i + length lcs) = Inr line
             \<and> lower (unicode e) (strip line) \<in> set [str ''exit'', str ''quit'']"
    then show "cli_loop e rag i d out =
                 Some (None,
                       d\<lparr>queries := queries d @ map (\<lambda>lc. strip (fst lc)) lcs,
                         status := str ''completed''\<rparr>,
                       out @ map (\<lambda>lc. str ''\<newline>'' @ snd lc @ str ''\<newline>'') lcs
                         @ [str ''Session ended.''])"
      unfolding run by (simp add: cli_loop_exit)
  }
  {
    fix err
    assume "input_line e (i + length lcs) = Inl err"
    then show "cli_loop e rag i d out =
                 Some (Some err,
                       d\<lparr>queries := queries d @ map (\<lambda>lc. strip (fst lc)) lcs\<rparr>,
                       out @ map (\<lambda>lc. str ''\<newline>'' @ snd lc @ str ''\<newline>'') lcs)"
      unfolding run by (simp add: cli_loop_input_error)
  }
  {
    fix lc
    assume "lc \<in> set lcs"
    then obtain j where "j < length lcs" "lcs ! j = lc"
      by (auto simp: in_set_conv_nth)
    with assms have "map_of PREDEFINED_QUESTIONS (lower (unicode e) (strip (fst lc)))
        = Some (snd lc)"
      by auto
    then show "lower (unicode e) (strip (fst lc)) \<notin> set [str ''exit'', str ''quit'']"
      by (rule canned_not_keyword)
  }
qed

theorem session_bypasses_retriever_witness:
  "input_line canned_session_env 0 = Inr (str ''  Recent activities of APT31?  '')
   \<and> map_of PREDEFINED_QUESTIONS
         (lower (unicode canned_session_env) (strip (str ''  Recent activities of APT31?  '')))
       = Some (snd (PREDEFINED_QUESTIONS ! 3))
   \<and> input_line canned_session_env 1 = Inr (str ''EXIT'')
   \<and> lower (unicode canned_session_env) (strip (str ''EXIT''))
       \<in> set [str ''exit'', str ''quit'']
   \<and> phase5_cli_interface canned_session_env
         (\<lambda>q. ([], Inl (PyException (str ''retriever called''))))
       = Some (None,
               phase5_initial\<lparr>queries := [str ''Recent activities of APT31?''],
                               status := str ''completed''\<rparr>,
               phase5_banner
                 @ [str ''\<newline>'' @ snd (PREDEFINED_QUESTIONS ! 3) @ str ''\<newline>'',
                    str ''Session ended.''])
   \<and> phase5_cli_interface canned_session_env (rag_query canned_session_env None None)
       = phase5_cli_interface canned_session_env
           (\<lambda>q. ([], Inl (PyException (str ''retriever called''))))"
proof -
  let ?stub = "\<lambda>q::ustring. ([]::ustring list,
      Inl (PyException (str ''retriever called'')) :: py_error + ustring)"
  let ?lcs = "[(str ''  Recent activities of APT31?  '', snd (PREDEFINED_QUESTIONS ! 3))]"
  have t: "map_of PREDEFINED_QUESTIONS
         (lower (unicode canned_session_env) (strip (str ''  Recent activities of APT31?  '')))
       = Some (snd (PREDEFINED_QUESTIONS ! 3))"
    using table_apt31 by (simp add: normalized_lines)
  have k: "lower (unicode canned_session_env) (strip (str ''EXIT''))
       \<in> set [str ''exit'', str ''quit'']"
    by (simp add: normalized_lines)
  have h: "\<forall>j<length ?lcs. input_line canned_session_env (0 + j) = Inr (fst (?lcs ! j))
      \<and> map_of PREDEFINED_QUESTIONS
           (lower (unicode canned_session_env) (strip (fst (?lcs ! j))))
          = Some (snd (?lcs ! j))"
    using t session_lines by simp
  note a = session_bypasses_retriever [OF h, of ?stub phase5_initial phase5_banner,
      THEN conjunct2, THEN conjunct1, rule_format, of "str ''EXIT''"]
  note b = session_bypasses_retriever [OF h, of "rag_query canned_session_env None None"
      phase5_initial phase5_banner,
      THEN conjunct2, THEN conjunct1, rule_format, of "str ''EXIT''"]
  have x: "phase5_cli_interface canned_session_env ?stub
       = Some (None,
               phase5_initial\<lparr>queries := [str ''Recent activities of APT31?''],
                               status := str ''completed''\<rparr>,
               phase5_banner
                 @ [str ''\<newline>'' @ snd (PREDEFINED_QUESTIONS ! 3) @ str ''\<newline>'',
                    str ''Session ended.''])"
    using a session_lines k
    by (simp add: phase5_cli_interface_def normalized_lines phase5_initial_def)
  have y: "phase5_cli_interface canned_session_env (rag_query canned_session_env None None)
       = Some (None,
               phase5_initial\<lparr>queries := [str ''Recent activities of APT31?''],
                               status := str ''completed''\<rparr>,
               phase5_banner
                 @ [str ''\<newline>'' @ snd (PREDEFINED_QUESTIONS ! 3) @ str ''\<newline>'',
                    str ''Session ended.''])"
    using b session_lines k
    by (simp add: phase5_cli_interface_def normalized_lines phase5_initial_def)
  from x y t k session_lines show ?thesis
    by simp
qed




subsection \<open>The run number\<close>

lemma split_not_Nil: "split sep s \<noteq> []"
  by (induction s) (auto split: list.splits)

lemma split_no_sep: "sep \<notin> set s \<Longrightarrow> split sep s = [s]"
  by (induction s) auto

lemma split_at_sep: "sep \<notin> set xs \<Longrightarrow> split sep (xs @ sep # ys) = xs # split sep ys"
  by (induction xs) auto

lemma is_digit_not_special:
  "is_digit c \<Longrightarrow> \<not> is_space c \<and> c \<noteq> 35 \<and> c \<noteq> 46 \<and> c \<noteq> 45 \<and> c \<noteq> 43"
  by (auto simp: is_digit_def is_space_def)

lemma digits_no_special:
  "list_all is_digit ds \<Longrightarrow> 35 \<notin> set ds \<and> 46 \<notin> set ds"
  using is_digit_not_special by (auto simp: list_all_iff)

lemma rev_dropWhile_rev:
  "xs \<noteq> [] \<Longrightarrow> \<not> P (last xs) \<Longrightarrow> rev (dropWhile P (rev xs)) = xs"
  by (cases xs rule: rev_cases) simp_all

lemma strip_no_space:
  assumes "s \<noteq> []" and "\<not> is_space (hd s)" and "\<not> is_space (last s)"
  shows "strip s = s"
proof -
  from assms(1,2) have "lstrip s = s"
    by (cases s) (simp_all add: lstrip_def)
  moreover from assms(1,3) have "rstrip s = s"
    by (simp add: rstrip_def rev_dropWhile_rev)
  ultimately show ?thesis by (simp add: strip_def)
qed

lemma digit_value_digit: "is_digit c \<Longrightarrow> digit_value db c = Some (digit_val c)"
  by (simp add: digit_value_def is_digit_def)

lemma int_digits_all:
  "list_all is_digit cs
     \<Longrightarrow> int_digits db cs acc = Some (foldl (\<lambda>a c. 10 * a + digit_val c) acc cs)"
  by (induction db cs acc rule: int_digits.induct) (auto simp: digit_value_digit)

lemma py_int_digits:
  assumes "ds \<noteq> []" and "list_all is_digit ds"
  shows "py_int db ds = Inr (int (foldl (\<lambda>a c. 10 * a + digit_val c) 0 ds))"
proof -
  from assms obtain c cs where ds: "ds = c # cs" and c: "is_digit c" and cs: "list_all is_digit cs"
    by (cases ds) auto
  have "is_digit (last ds)"
    using assms by (simp add: list_all_iff)
  then have "strip ds = ds"
    using assms(1) c is_digit_not_special by (intro strip_no_space) (auto simp: ds)
  then show ?thesis
    using c cs is_digit_not_special [OF c]
    by (simp add: py_int_def ds int_digits_all digit_value_digit)
qed

lemma file_number_artifact:
  assumes "ds \<noteq> []" and "list_all is_digit ds"
  shows "file_number db (str ''CyberX #'' @ ds @ str ''.json'')
     = Inr (int (foldl (\<lambda>a c. 10 * a + digit_val c) 0 ds))"
proof -
  have n: "35 \<notin> set ds" "46 \<notin> set ds"
    using digits_no_special [OF assms(2)] by simp_all
  have lit: "str ''CyberX #'' = str ''CyberX '' @ [35]" "str ''.json'' = 46 # str ''json''"
    "35 \<notin> set (str ''CyberX '')" "35 \<notin> set (str ''.json'')"
    by (simp_all add: str_def)
  have "split 35 (str ''CyberX '' @ 35 # (ds @ str ''.json''))
      = str ''CyberX '' # split 35 (ds @ str ''.json'')"
    by (rule split_at_sep) (rule lit(3))
  moreover have "split 35 (ds @ str ''.json'') = [ds @ str ''.json'']"
    using n(1) lit(4) by (intro split_no_sep) simp
  ultimately have a: "split 35 (str ''CyberX #'' @ ds @ str ''.json'')
      = [str ''CyberX '', ds @ str ''.json'']"
    by (simp add: lit(1))
  have "split 46 (ds @ 46 # str ''json'') = ds # split 46 (str ''json'')"
    by (rule split_at_sep [OF n(2)])
  then have b: "split 46 (ds @ str ''.json'') = ds # split 46 (str ''json'')"
    by (simp add: lit(2))
  show ?thesis
    by (simp only: file_number_def a b list.case py_int_digits [OF assms])
qed

lemma artifact_shape:
  assumes "spec_artifact_number f = Some n"
  shows "\<exists>ds. f = (str ''CyberX #'') @ ds @ (str ''.json'') \<and> ds \<noteq> [] \<and> list_all is_digit ds
            \<and> n = int (foldl (\<lambda>a c. 10 * a + digit_val c) 0 ds)"
proof -
  let ?ds = "take (length f - 13) (drop 8 f)"
  from assms have g: "glob_match f" and d: "?ds \<noteq> []" "list_all is_digit ?ds"
    and n: "n = int (foldl (\<lambda>a c. 10 * a + digit_val c) 0 ?ds)"
    by (auto simp: spec_artifact_number_def Let_def split: if_splits)
  from g have len: "13 \<le> length f" and pre: "take 8 f = (str ''CyberX #'')"
    and suf: "drop (length f - 5) f = (str ''.json'')"
    by (simp_all add: glob_match_def)
  have "drop 8 f = ?ds @ drop (length f - 13) (drop 8 f)"
    by (rule append_take_drop_id [symmetric])
  also have "drop (length f - 13) (drop 8 f) = drop (length f - 5) f"
    using len by simp
  finally have "f = take 8 f @ ?ds @ drop (length f - 5) f"
    by (metis append_take_drop_id)
  with pre suf have "f = (str ''CyberX #'') @ ?ds @ (str ''.json'')"
    by simp
  with d n show ?thesis by blast
qed

lemma artifact_file_number:
  assumes "spec_artifact_number f = Some n"
  shows "file_number db f = Inr n \<and> 35 \<in> set f \<and> 46 \<in> set f"
proof -
  from artifact_shape [OF assms] obtain ds where
    f: "f = (str ''CyberX #'') @ ds @ (str ''.json'')" and ds: "ds \<noteq> []" "list_all is_digit ds"
    and n: "n = int (foldl (\<lambda>a c. 10 * a + digit_val c) 0 ds)"
    by blast
  have "35 \<in> set (str ''CyberX #'')" "46 \<in> set (str ''.json'')"
    by (simp_all add: str_def)
  then show ?thesis
    unfolding f n using file_number_artifact [OF ds] by simp
qed

lemma file_numbers_artifacts:
  "\<forall>f\<in>set fs. spec_artifact_number f \<noteq> None
     \<Longrightarrow> file_numbers db fs = Inr (List.map_filter spec_artifact_number fs)"
proof (induction fs)
  case Nil
  show ?case by simp
next
  case (Cons f fs)
  then obtain n where n: "spec_artifact_number f = Some n"
    by auto
  from Cons have "file_numbers db fs = Inr (List.map_filter spec_artifact_number fs)"
    by simp
  with artifact_file_number [OF n] n show ?case
    by simp
qed

lemma map_filter_glob:
  "List.map_filter spec_artifact_number (filter glob_match fs)
     = List.map_filter spec_artifact_number fs"
  by (induction fs) (auto simp: spec_artifact_number_def Let_def)

lemma determine_run_number_spec:
  assumes "\<forall>f\<in>set (listdir e). glob_match f \<longrightarrow> spec_artifact_number f \<noteq> None"
  shows "determine_run_number e = Inr (spec_run_number (listdir e))"
proof -
  have all: "\<forall>f\<in>set (glob_files e). spec_artifact_number f \<noteq> None"
    using assms by (simp add: glob_files_def)
  have nums: "file_numbers (unicode e) (glob_files e)
      = Inr (List.map_filter spec_artifact_number (listdir e))"
    using file_numbers_artifacts [OF all] by (simp add: glob_files_def map_filter_glob)
  show ?thesis
  proof (cases "glob_files e")
    case Nil
    then have "List.map_filter spec_artifact_number (listdir e) = []"
      using map_filter_glob [of "listdir e"]
      by (simp add: glob_files_def)
    with Nil show ?thesis
      by (simp add: determine_run_number_def spec_run_number_def)
  next
    case (Cons f fs)
    with all obtain n where "spec_artifact_number f = Some n"
      by auto
    with Cons have "List.map_filter spec_artifact_number (glob_files e)
        = n # List.map_filter spec_artifact_number fs"
      by simp
    then obtain ns where ns: "List.map_filter spec_artifact_number (listdir e) = n # ns"
      by (simp add: glob_files_def map_filter_glob)
    have "fold max ns n = Max (set (n # ns))"
      by (simp only: Max.set_eq_fold)
    with Cons nums ns show ?thesis
      by (simp add: determine_run_number_def spec_run_number_def del: set_simps)
  qed
qed


lemma digit_char_digit: "d < 10 \<Longrightarrow> is_digit (digit_char d) \<and> digit_val (digit_char d) = d"
  by (simp add: is_digit_def digit_val_def digit_char_def)

lemma str_nat_digits: "str_nat n \<noteq> [] \<and> list_all is_digit (str_nat n)"
proof (induction n rule: str_nat.induct)
  case (1 n)
  show ?case
  proof (cases "n < 10")
    case True
    then show ?thesis
      by (subst (1 2) str_nat.simps) (simp add: digit_char_digit)
  next
    case False
    with 1 show ?thesis
      by (subst (1 2) str_nat.simps) (simp add: digit_char_digit)
  qed
qed

lemma str_nat_value: "foldl (\<lambda>a c. 10 * a + digit_val c) 0 (str_nat n) = n"
proof (induction n rule: str_nat.induct)
  case (1 n)
  show ?case
  proof (cases "n < 10")
    case True
    then show ?thesis
      by (subst str_nat.simps) (simp add: digit_char_digit)
  next
    case False
    with 1 show ?thesis
      by (subst str_nat.simps) (simp add: digit_char_digit)
  qed
qed

lemma affix_shape:
  assumes "length P = 8" and "length S = 5"
  shows "length (P @ ds @ S) = length ds + 13 \<and> take 8 (P @ ds @ S) = P
     \<and> drop (length (P @ ds @ S) - 5) (P @ ds @ S) = S
     \<and> take (length (P @ ds @ S) - 13) (drop 8 (P @ ds @ S)) = ds"
  using assms by simp

lemma artifact_of_digits:
  assumes "ds \<noteq> []" and "list_all is_digit ds"
  shows "spec_artifact_number ((str ''CyberX #'') @ ds @ (str ''.json''))
     = Some (int (foldl (\<lambda>a c. 10 * a + digit_val c) 0 ds))"
proof -
  define f where "f = (str ''CyberX #'') @ ds @ (str ''.json'')"
  have ps: "length (str ''CyberX #'') = 8" "length (str ''.json'') = 5"
    by simp_all
  note sh = affix_shape [OF ps, of ds, folded f_def]
  from sh have "13 \<le> length f"
    by linarith
  with sh have g: "glob_match f"
    unfolding glob_match_def by blast
  from sh have d: "take (length f - 13) (drop 8 f) = ds"
    by blast
  have "spec_artifact_number f = Some (int (foldl (\<lambda>a c. 10 * a + digit_val c) 0 ds))"
    unfolding spec_artifact_number_def Let_def d using g assms by (simp only: simp_thms if_True)
  then show ?thesis
    unfolding f_def .
qed

lemma artifact_run_filename: "spec_artifact_number (run_filename (int m)) = Some (int m)"
  using artifact_of_digits [of "str_nat m"] str_nat_digits [of m]
  by (simp add: run_filename_def str_int_def str_nat_value)

text \<open>
  Facts about the two working directories, evaluated once and used below.
\<close>

lemmas name_defs = glob_match_def spec_artifact_number_def is_digit_def digit_val_def str_def

lemma four_runs_numbers:
  "map spec_artifact_number (filter glob_match (listdir four_runs_env))
     = [Some 2, Some 4, Some 1, Some 3]"
  by (simp add: four_runs_env_def offline_env_def name_defs)

lemma four_runs_artifacts:
  "\<forall>f\<in>set (listdir four_runs_env). glob_match f \<longrightarrow> spec_artifact_number f \<noteq> None"
  by (simp add: four_runs_env_def offline_env_def name_defs)

lemma four_runs_spec: "spec_run_number (listdir four_runs_env) = 5"
  by (simp add: spec_run_number_def four_runs_env_def offline_env_def name_defs)

lemma backup_spec: "spec_run_number (listdir backup_env) = 2"
  by (simp add: spec_run_number_def backup_env_def offline_env_def name_defs)

lemma backup_numbers:
  "file_number db (str ''CyberX #1.json'') = Inr 1
   \<and> file_number db (str ''CyberX #5.backup.json'') = Inr 5"
  by (simp add: file_number_def py_int_def digit_value_def is_digit_def digit_val_def
      strip_defs str_def)

lemma backup_glob:
  "glob_files backup_env = [str ''CyberX #1.json'', str ''CyberX #5.backup.json'']
   \<and> 35 \<in> set (str ''CyberX #1.json'') \<and> 46 \<in> set (str ''CyberX #1.json'')
   \<and> 35 \<in> set (str ''CyberX #5.backup.json'') \<and> 46 \<in> set (str ''CyberX #5.backup.json'')"
  by (simp add: glob_files_def glob_match_def backup_env_def offline_env_def str_def)

lemma backup_run_number: "determine_run_number backup_env = Inr 6"
  by (simp add: determine_run_number_def backup_glob backup_numbers)

text \<open>
  Claim C7, as amended. When every file of the working directory that the pattern
  \<^verbatim>\<open>CyberX #*.json\<close> matches is named \<^verbatim>\<open>CyberX #<N>.json\<close> with \<open>N\<close> a non-empty
  string of decimal digits, the run number is 1 plus the maximum \<open>N\<close>, and 1 when there
  is no such file. The log of run \<open>n\<close> is written under the name
  \<^verbatim>\<open>CyberX #<n>.json\<close>, which is again such a name, with number \<open>n\<close>. The code reads
  \<open>N\<close> as the integer before the first dot after the first \<^verbatim>\<open>#\<close> of every name the
  pattern matches: the counterexample after the witness is a directory with a name that is
  not of the form \<^verbatim>\<open>CyberX #<N>.json\<close> and is counted all the same.
\<close>

theorem run_number_next:
  "((\<forall>f\<in>set (listdir e). glob_match f \<longrightarrow> spec_artifact_number f \<noteq> None)
      \<longrightarrow> determine_run_number e = Inr (spec_run_number (listdir e)))
   \<and> (open_write e (run_filename n) = None
      \<longrightarrow> fst (save_run_json e n all_phase_data files)
          = files @ [((str ''CyberX #'') @ str_int n @ (str ''.json''), all_phase_data)])
   \<and> spec_artifact_number (run_filename (int m)) = Some (int m)"
proof (intro conjI impI)
  assume "\<forall>f\<in>set (listdir e). glob_match f \<longrightarrow> spec_artifact_number f \<noteq> None"
  then show "determine_run_number e = Inr (spec_run_number (listdir e))"
    by (rule determine_run_number_spec)
next
  assume "open_write e (run_filename n) = None"
  then show "fst (save_run_json e n all_phase_data files)
          = files @ [((str ''CyberX #'') @ str_int n @ (str ''.json''), all_phase_data)]"
    by (simp add: save_run_json_def run_filename_def)
next
  show "spec_artifact_number (run_filename (int m)) = Some (int m)"
    by (rule artifact_run_filename)
qed

theorem run_number_next_witness:
  "map spec_artifact_number (filter glob_match (listdir four_runs_env))
     = [Some 2, Some 4, Some 1, Some 3]
   \<and> determine_run_number four_runs_env = Inr 5
   \<and> open_write four_runs_env (run_filename 5) = None
   \<and> map fst (fst (save_run_json four_runs_env 5
         \<lparr>run_number = 5,
          log_phases = \<lparr>phase1 = None, phase2 = None, phase3 = None, phase4 = None,
                         phase5 = None\<rparr>\<rparr> []))
       = [(str ''CyberX #5.json'')]
   \<and> spec_artifact_number (str ''CyberX #5.json'') = Some 5"
proof -
  have w: "open_write four_runs_env (run_filename 5) = None"
    by (simp add: four_runs_env_def offline_env_def)
  have s: "str_int 5 = str ''5''"
    by (simp add: str_int_def str_nat.simps digit_char_def str_def)
  note g = four_runs_numbers
  from run_number_next [of four_runs_env 5
      "\<lparr>run_number = 5,
        log_phases = \<lparr>phase1 = None, phase2 = None, phase3 = None, phase4 = None,
                       phase5 = None\<rparr>\<rparr>" "[]" 5] four_runs_artifacts w
  have "determine_run_number four_runs_env = Inr 5
   \<and> open_write four_runs_env (run_filename 5) = None
   \<and> map fst (fst (save_run_json four_runs_env 5
         \<lparr>run_number = 5,
          log_phases = \<lparr>phase1 = None, phase2 = None, phase3 = None, phase4 = None,
                         phase5 = None\<rparr>\<rparr> []))
       = [(str ''CyberX #5.json'')]
   \<and> spec_artifact_number (str ''CyberX #5.json'') = Some 5"
    by (simp add: four_runs_spec run_filename_5 s name_defs)
  with g show ?thesis
    by blast
qed

theorem run_number_counterexample:
  "listdir backup_env = [(str ''CyberX #1.json''), (str ''CyberX #5.backup.json'')]
   \<and> spec_run_number (listdir backup_env) = 2
   \<and> determine_run_number backup_env = Inr 6
   \<and> determine_run_number backup_env \<noteq> Inr (spec_run_number (listdir backup_env))"
  by (simp add: backup_run_number backup_spec) (simp add: backup_env_def offline_env_def)

end
